theory Spec2Isabelle
  imports Main "HOL-Library.Word"
begin

section \<open>Superblock probing of pkg/dev/fs.go\<close>

text \<open>
  The Go file probes a block device for an EXT4 or an XFS superblock. The functions
  \<open>ProbeFS\<close>, \<open>ProbeFSEXT4\<close> and \<open>ProbeFSXFS\<close> and the constant block of magic
  numbers are translated from the source. What they call outside the file (the Go
  standard library, and the declarations of the package's other files) is modelled
  below, each part under its own heading.
\<close>

subsection \<open>Errors\<close>

text \<open>
  The errors of the standard library that the calls of fs.go return: a \<open>*PathError\<close>
  of os (the operation, the path and the errno of a failed open, seek or read),
  \<open>io.EOF\<close> and \<open>io.ErrUnexpectedEOF\<close> of \<open>binary.Read\<close>.
\<close>

datatype errno = ENOENT | EACCES | EBUSY | EINVAL | EIO

datatype os_error = PathError string string errno | EOF | ErrUnexpectedEOF

text \<open>
  Modelled from the spec: \<open>ErrNotEXT4\<close> and \<open>ErrNotXFS\<close>, which \<open>ProbeFS\<close>
  compares by identity, are declared outside the source at hand; the spec calls them the
  typed "not this format" outcome of each decoder, distinct from a device-access error.
  \<open>ErrNoFS\<close> is the variable of fs.go. A Go \<open>error\<close> returned by the three
  functions is one of these three values or an error of the standard library.
\<close>

datatype error = ErrNoFS | ErrNotEXT4 | ErrNotXFS | OSError os_error

subsection \<open>The result of a probe\<close>

text \<open>
  Modelled from the spec: the constants \<open>FSTypeEXT4\<close> and \<open>FSTypeXFS\<close> (of Go type
  \<open>FSType\<close>, a string) and the type \<open>Mount\<close> are declared outside the source at
  hand. The spec has the format as an enumerated tag and the mount records as opaque.
\<close>

datatype FSType = FSTypeEXT4 | FSTypeXFS

typedecl Mount

record FSInfo =
  FSType :: FSType
  TotalCapacity :: "64 word"
  FreeCapacity :: "64 word"
  FSBlockSize :: "64 word"
  Mounts :: "Mount list"

subsection \<open>Block devices and the calls of os and encoding/binary\<close>

text \<open>
  A device file is its bytes, its kind, and the errno (if any) with which opening it or
  reading it fails. The kind gives the largest position that a seek accepts: the size
  of a block device, and for a regular file the largest file size of its filesystem
  (\<open>s_maxbytes\<close>). The devices of the machine are a map from paths. An open file is
  the device with the current position, 0 when just opened.
\<close>

type_synonym byte = "8 word"

datatype file_kind = BlockDevice | RegularFile nat

record blockdev =
  image :: "byte list"
  kind :: file_kind
  open_fault :: "errno option"
  read_fault :: "errno option"

definition seek_limit :: "blockdev \<Rightarrow> nat" where
  "seek_limit d =
     (case kind d of BlockDevice \<Rightarrow> length (image d) | RegularFile maxbytes \<Rightarrow> maxbytes)"

record File =
  path :: string
  dev :: blockdev
  pos :: nat

text \<open>
  \<open>os.OpenFile(path, O_RDONLY, ModeDevice)\<close>: a \<open>*PathError\<close> when the path does
  not exist or the open fails.
\<close>

definition os_OpenFile :: "(string \<rightharpoonup> blockdev) \<Rightarrow> string \<Rightarrow> os_error + File" where
  "os_OpenFile devices p =
     (case devices p of
        None \<Rightarrow> Inl (PathError ''open'' p ENOENT)
      | Some d \<Rightarrow>
          (case open_fault d of
             Some e \<Rightarrow> Inl (PathError ''open'' p e)
           | None \<Rightarrow> Inr \<lparr>path = p, dev = d, pos = 0\<rparr>))"

text \<open>
  \<open>(*File).Seek(offset, SEEK_CUR)\<close> with a signed 64-bit offset: the new position
  is the current one plus the offset. The seek is refused with EINVAL when that
  position is negative or beyond the limit of the file: past the end of a block device.
  The position at the end itself is accepted (the read there finds no bytes).
\<close>

definition File_Seek :: "File \<Rightarrow> int \<Rightarrow> os_error + File" where
  "File_Seek f offset =
     (let new = int (pos f) + offset in
      if new < 0 \<or> int (seek_limit (dev f)) < new
      then Inl (PathError ''seek'' (path f) EINVAL)
      else Inr (f\<lparr>pos := nat new\<rparr>))"

text \<open>
  The read of \<open>binary.Read(r, order, data)\<close>: \<open>io.ReadFull\<close> into a buffer of the
  size \<open>n\<close> of the structure. No byte at the position is \<open>io.EOF\<close>, fewer than
  \<open>n\<close> is \<open>io.ErrUnexpectedEOF\<close>, a failing read is its \<open>*PathError\<close>.
\<close>

definition binary_Read :: "File \<Rightarrow> nat \<Rightarrow> os_error + byte list" where
  "binary_Read f n =
     (if n = 0 then Inr []
      else
        (case read_fault (dev f) of
           Some e \<Rightarrow> Inl (PathError ''read'' (path f) e)
         | None \<Rightarrow>
             (let avail = drop (pos f) (image (dev f)) in
              if avail = [] then Inl EOF
              else if length avail < n then Inl ErrUnexpectedEOF
              else Inr (take n avail))))"

text \<open>
  The decoding of \<open>binary.Read\<close>: an unsigned field of \<open>w\<close> bytes at byte offset
  \<open>at\<close> of the buffer, in the byte order given.
\<close>

datatype ByteOrder = LittleEndian | BigEndian

fun le_uint :: "byte list \<Rightarrow> nat" where
  "le_uint [] = 0"
| "le_uint (b # bs) = unat b + 256 * le_uint bs"

definition Uint :: "ByteOrder \<Rightarrow> byte list \<Rightarrow> nat" where
  "Uint order bs = (case order of LittleEndian \<Rightarrow> le_uint bs | BigEndian \<Rightarrow> le_uint (rev bs))"

definition uint_at :: "ByteOrder \<Rightarrow> nat \<Rightarrow> nat \<Rightarrow> byte list \<Rightarrow> 'a::len word" where
  "uint_at order at w buf = of_nat (Uint order (take w (drop at buf)))"

subsection \<open>The magic numbers of fs.go\<close>

text \<open>
  The constant block of fs.go, in the order of the source: each name with its value.
  Apart from \<open>None\<close> (a \<open>uint32\<close>) the constants are untyped integer constants.
\<close>

definition magic_numbers :: "(string \<times> nat) list" where
  "magic_numbers =
    [(''None'', 0x0),
     (''ADFS_SUPER_MAGIC'', 0xadf5),
     (''AFFS_SUPER_MAGIC'', 0xadff),
     (''AFS_SUPER_MAGIC'', 0x5346414f),
     (''ANON_INODE_FS_MAGIC'', 0x09041934),
     (''AUTOFS_SUPER_MAGIC'', 0x0187),
     (''BDEVFS_MAGIC'', 0x62646576),
     (''BEFS_SUPER_MAGIC'', 0x42465331),
     (''BFS_MAGIC'', 0x1badface),
     (''BINFMTFS_MAGIC'', 0x42494e4d),
     (''BPF_FS_MAGIC'', 0xcafe4a11),
     (''BTRFS_SUPER_MAGIC'', 0x9123683e),
     (''BTRFS_TEST_MAGIC'', 0x73727279),
     (''CGROUP_SUPER_MAGIC'', 0x27e0eb),
     (''CGROUP2_SUPER_MAGIC'', 0x63677270),
     (''CIFS_MAGIC_NUMBER'', 0xff534d42),
     (''CODA_SUPER_MAGIC'', 0x73757245),
     (''COH_SUPER_MAGIC'', 0x012ff7b7),
     (''CRAMFS_MAGIC'', 0x28cd3d45),
     (''DEBUGFS_MAGIC'', 0x64626720),
     (''DEVFS_SUPER_MAGIC'', 0x1373),
     (''DEVPTS_SUPER_MAGIC'', 0x1cd1),
     (''ECRYPTFS_SUPER_MAGIC'', 0xf15f),
     (''EFIVARFS_MAGIC'', 0xde5e81e4),
     (''EFS_SUPER_MAGIC'', 0x00414a53),
     (''EXT_SUPER_MAGIC'', 0x137d),
     (''EXT2_OLD_SUPER_MAGIC'', 0xef51),
     (''EXT2_SUPER_MAGIC'', 0xef53),
     (''EXT3_SUPER_MAGIC'', 0xef53),
     (''EXT4_SUPER_MAGIC'', 0xef53),
     (''F2FS_SUPER_MAGIC'', 0xf2f52010),
     (''FUSE_SUPER_MAGIC'', 0x65735546),
     (''FUTEXFS_SUPER_MAGIC'', 0xbad1dea),
     (''HFS_SUPER_MAGIC'', 0x4244),
     (''HOSTFS_SUPER_MAGIC'', 0x00c0ffee),
     (''HPFS_SUPER_MAGIC'', 0xf995e849),
     (''HUGETLBFS_MAGIC'', 0x958458f6),
     (''ISOFS_SUPER_MAGIC'', 0x9660),
     (''JFFS2_SUPER_MAGIC'', 0x72b6),
     (''JFS_SUPER_MAGIC'', 0x3153464a),
     (''MINIX_SUPER_MAGIC'', 0x137f),
     (''MINIX_SUPER_MAGIC2'', 0x138f),
     (''MINIX2_SUPER_MAGIC'', 0x2468),
     (''MINIX2_SUPER_MAGIC2'', 0x2478),
     (''MINIX3_SUPER_MAGIC'', 0x4d5a),
     (''MQUEUE_MAGIC'', 0x19800202),
     (''MSDOS_SUPER_MAGIC'', 0x4d44),
     (''MTD_INODE_FS_MAGIC'', 0x11307854),
     (''NCP_SUPER_MAGIC'', 0x564c),
     (''NFS_SUPER_MAGIC'', 0x6969),
     (''NILFS_SUPER_MAGIC'', 0x3434),
     (''NSFS_MAGIC'', 0x6e736673),
     (''NTFS_SB_MAGIC'', 0x5346544e),
     (''OCFS2_SUPER_MAGIC'', 0x7461636f),
     (''OPENPROM_SUPER_MAGIC'', 0x9fa1),
     (''OVERLAYFS_SUPER_MAGIC'', 0x794c7630),
     (''PIPEFS_MAGIC'', 0x50495045),
     (''PROC_SUPER_MAGIC'', 0x9fa0),
     (''PSTOREFS_MAGIC'', 0x6165676c),
     (''QNX4_SUPER_MAGIC'', 0x002f),
     (''QNX6_SUPER_MAGIC'', 0x68191122),
     (''RAMFS_MAGIC'', 0x858458f6),
     (''REISERFS_SUPER_MAGIC'', 0x52654973),
     (''ROMFS_MAGIC'', 0x7275),
     (''SECURITYFS_MAGIC'', 0x73636673),
     (''SELINUX_MAGIC'', 0xf97cff8c),
     (''SMACK_MAGIC'', 0x43415d53),
     (''SMB_SUPER_MAGIC'', 0x517b),
     (''SMB2_MAGIC_NUMBER'', 0xfe534d42),
     (''SOCKFS_MAGIC'', 0x534f434b),
     (''SQUASHFS_MAGIC'', 0x73717368),
     (''SYSFS_MAGIC'', 0x62656572),
     (''SYSV2_SUPER_MAGIC'', 0x012ff7b6),
     (''SYSV4_SUPER_MAGIC'', 0x012ff7b5),
     (''TMPFS_MAGIC'', 0x01021994),
     (''TRACEFS_MAGIC'', 0x74726163),
     (''UDF_SUPER_MAGIC'', 0x15013346),
     (''UFS_MAGIC'', 0x00011954),
     (''USBDEVICE_SUPER_MAGIC'', 0x9fa2),
     (''V9FS_MAGIC'', 0x01021997),
     (''VXFS_SUPER_MAGIC'', 0xa501fcf5),
     (''XENFS_SUPER_MAGIC'', 0xabba1974),
     (''XENIX_SUPER_MAGIC'', 0x012ff7b4),
     (''XFS_SUPER_MAGIC'', 0x58465342),
     (''_XIAFS_SUPER_MAGIC'', 0x012fd16d)]"

definition EXT2_SUPER_MAGIC :: nat where
  "EXT2_SUPER_MAGIC = 0xef53"

definition EXT3_SUPER_MAGIC :: nat where
  "EXT3_SUPER_MAGIC = 0xef53"

definition EXT4_SUPER_MAGIC :: nat where
  "EXT4_SUPER_MAGIC = 0xef53"

definition XFS_SUPER_MAGIC :: nat where
  "XFS_SUPER_MAGIC = 0x58465342"

text \<open>The names the block gives to a value, in the order of the source.\<close>

definition magic_names :: "nat \<Rightarrow> string list" where
  "magic_names v = map fst (filter (\<lambda>e. snd e = v) magic_numbers)"

subsection \<open>The superblock structures\<close>

text \<open>
  Modelled from the spec: the structures \<open>EXT4SuperBlock\<close> and \<open>XFSSuperBlock\<close> and
  their methods \<open>Is\<close> are declared outside the source at hand. The spec has them as
  fixed-size mirrors of the on-disk superblocks, to which it refers for the widths of
  the fields: in EXT4 the block counts and the block-size exponent are 32-bit and the
  magic is 16-bit; in XFS the magic and the block size are 32-bit and the block counts
  are 64-bit. The records keep the fields that fs.go reads and the magic. The size of
  each structure and the byte offsets of its fields are parameters (the layouts
  below). \<open>Is\<close> compares the magic with the constant of the format.
\<close>

record EXT4SuperBlock =
  NumBlocks :: "32 word"
  FreeBlocks :: "32 word"
  LogBlockSize :: "32 word"
  Magic :: "16 word"

record XFSSuperBlock =
  MagicNumber :: "32 word"
  BlockSize :: "32 word"
  TotalBlocks :: "64 word"
  FreeBlocks :: "64 word"

record EXT4Layout =
  EXT4_sizeof :: nat
  NumBlocks_at :: nat
  EXT4_FreeBlocks_at :: nat
  LogBlockSize_at :: nat
  Magic_at :: nat

record XFSLayout =
  XFS_sizeof :: nat
  MagicNumber_at :: nat
  BlockSize_at :: nat
  TotalBlocks_at :: nat
  XFS_FreeBlocks_at :: nat

definition decode_EXT4 :: "EXT4Layout \<Rightarrow> ByteOrder \<Rightarrow> byte list \<Rightarrow> EXT4SuperBlock" where
  "decode_EXT4 L order buf =
     \<lparr>NumBlocks = uint_at order (NumBlocks_at L) 4 buf,
      FreeBlocks = uint_at order (EXT4_FreeBlocks_at L) 4 buf,
      LogBlockSize = uint_at order (LogBlockSize_at L) 4 buf,
      Magic = uint_at order (Magic_at L) 2 buf\<rparr>"

definition decode_XFS :: "XFSLayout \<Rightarrow> ByteOrder \<Rightarrow> byte list \<Rightarrow> XFSSuperBlock" where
  "decode_XFS L order buf =
     \<lparr>MagicNumber = uint_at order (MagicNumber_at L) 4 buf,
      BlockSize = uint_at order (BlockSize_at L) 4 buf,
      TotalBlocks = uint_at order (TotalBlocks_at L) 8 buf,
      FreeBlocks = uint_at order (XFS_FreeBlocks_at L) 8 buf\<rparr>"

definition EXT4SuperBlock_Is :: "EXT4SuperBlock \<Rightarrow> bool" where
  "EXT4SuperBlock_Is e = (unat (Magic e) = EXT4_SUPER_MAGIC)"

definition XFSSuperBlock_Is :: "XFSSuperBlock \<Rightarrow> bool" where
  "XFSSuperBlock_Is x = (unat (MagicNumber x) = XFS_SUPER_MAGIC)"

subsection \<open>The environment of a probe\<close>

text \<open>
  What a probe depends on and fs.go does not define: the function \<open>getBlockFile\<close>
  from a device name to its path (declared outside the source at hand), the devices of
  the machine, the two layouts, and the value of \<open>uint64(f)\<close> for a float64 \<open>f\<close>
  that uint64 cannot represent, which Go leaves to the implementation (given here for
  \<open>f = 2 ^ n\<close>, as a function of \<open>n\<close>).
\<close>

record env =
  getBlockFile :: "string \<Rightarrow> string"
  devices :: "string \<rightharpoonup> blockdev"
  ext4_layout :: EXT4Layout
  xfs_layout :: XFSLayout
  uint64_overflow :: "nat \<Rightarrow> 64 word"

text \<open>
  \<open>uint64(math.Pow(2, float64(n)))\<close> for an unsigned integer \<open>n\<close>: the power of
  two is exact in float64, and so is its conversion when the value is below \<open>2 ^ 64\<close>.
\<close>

definition uint64_Pow2 :: "env \<Rightarrow> nat \<Rightarrow> 64 word" where
  "uint64_Pow2 env n = (if n < 64 then 2 ^ n else uint64_overflow env n)"

subsection \<open>The decoders and the dispatcher\<close>

text \<open>
  Each function returns Go's pair of a pointer and an error (\<open>None\<close> is \<open>nil\<close>), and
  with it the calls it made, in order: its own entry, the opening of the device, the
  seek with its offset, the read with its byte order, position and size, and the
  deferred close.
\<close>

datatype call =
  Call_ProbeFSEXT4
  | Call_ProbeFSXFS
  | Call_OpenFile string
  | Call_Seek int
  | Call_Read ByteOrder nat nat
  | Call_Close

type_synonym probe_result = "(FSInfo option \<times> error option) \<times> call list"

definition ProbeFSEXT4 :: "env \<Rightarrow> string \<Rightarrow> 64 word \<Rightarrow> 64 word \<Rightarrow> probe_result" where
  "ProbeFSEXT4 env devName logicalBlockSize offsetBlocks =
     (let devPath = getBlockFile env devName in
      case os_OpenFile (devices env) devPath of
        Inl err \<Rightarrow> ((None, Some (OSError err)), [Call_ProbeFSEXT4, Call_OpenFile devPath])
      | Inr devFile \<Rightarrow>
          (let offset = sint (logicalBlockSize * offsetBlocks) in
           case File_Seek devFile offset of
             Inl err \<Rightarrow>
               ((None, Some (OSError err)),
                [Call_ProbeFSEXT4, Call_OpenFile devPath, Call_Seek offset, Call_Close])
           | Inr devFile \<Rightarrow>
               (let n = EXT4_sizeof (ext4_layout env);
                    calls = [Call_ProbeFSEXT4, Call_OpenFile devPath, Call_Seek offset,
                             Call_Read LittleEndian (pos devFile) n, Call_Close]
                in
                case binary_Read devFile n of
                  Inl err \<Rightarrow> ((None, Some (OSError err)), calls)
                | Inr buf \<Rightarrow>
                    (let ext4 = decode_EXT4 (ext4_layout env) LittleEndian buf in
                     if \<not> EXT4SuperBlock_Is ext4 then ((None, Some ErrNotEXT4), calls)
                     else
                       (let fsBlockSize = uint64_Pow2 env (unat (10 + LogBlockSize ext4));
                            fsInfo =
                              \<lparr>FSType = FSTypeEXT4,
                               TotalCapacity = ucast (NumBlocks ext4) * fsBlockSize,
                               FreeCapacity = ucast (EXT4SuperBlock.FreeBlocks ext4) * fsBlockSize,
                               FSBlockSize = fsBlockSize,
                               Mounts = []\<rparr>
                        in ((Some fsInfo, None), calls))))))"

definition ProbeFSXFS :: "env \<Rightarrow> string \<Rightarrow> 64 word \<Rightarrow> 64 word \<Rightarrow> probe_result" where
  "ProbeFSXFS env devName logicalBlockSize offsetBlocks =
     (let devPath = getBlockFile env devName in
      case os_OpenFile (devices env) devPath of
        Inl err \<Rightarrow> ((None, Some (OSError err)), [Call_ProbeFSXFS, Call_OpenFile devPath])
      | Inr devFile \<Rightarrow>
          (let offset = sint (logicalBlockSize * offsetBlocks) in
           case File_Seek devFile offset of
             Inl err \<Rightarrow>
               ((None, Some (OSError err)),
                [Call_ProbeFSXFS, Call_OpenFile devPath, Call_Seek offset, Call_Close])
           | Inr devFile \<Rightarrow>
               (let n = XFS_sizeof (xfs_layout env);
                    calls = [Call_ProbeFSXFS, Call_OpenFile devPath, Call_Seek offset,
                             Call_Read BigEndian (pos devFile) n, Call_Close]
                in
                case binary_Read devFile n of
                  Inl err \<Rightarrow> ((None, Some (OSError err)), calls)
                | Inr buf \<Rightarrow>
                    (let xfs = decode_XFS (xfs_layout env) BigEndian buf in
                     if \<not> XFSSuperBlock_Is xfs then ((None, Some ErrNotXFS), calls)
                     else
                       (let fsInfo =
                              \<lparr>FSType = FSTypeXFS,
                               TotalCapacity = ucast (TotalBlocks xfs) * ucast (BlockSize xfs),
                               FreeCapacity =
                                 ucast (XFSSuperBlock.FreeBlocks xfs) * ucast (BlockSize xfs),
                               FSBlockSize = ucast (BlockSize xfs),
                               Mounts = []\<rparr>
                        in ((Some fsInfo, None), calls))))))"

definition ProbeFS :: "env \<Rightarrow> string \<Rightarrow> 64 word \<Rightarrow> 64 word \<Rightarrow> probe_result" where
  "ProbeFS env devName logicalBlockSize offsetBlocks =
     (case ProbeFSEXT4 env devName logicalBlockSize offsetBlocks of
        ((ext4FSInfo, err), calls1) \<Rightarrow>
          if err \<noteq> None \<and> err \<noteq> Some ErrNotEXT4 then ((None, err), calls1)
          else if ext4FSInfo \<noteq> None then ((ext4FSInfo, None), calls1)
          else
            (case ProbeFSXFS env devName logicalBlockSize offsetBlocks of
               ((XFSInfo, err), calls2) \<Rightarrow>
                 if err \<noteq> None \<and> err \<noteq> Some ErrNotXFS then ((None, err), calls1 @ calls2)
                 else if XFSInfo \<noteq> None then ((XFSInfo, None), calls1 @ calls2)
                 else ((None, Some ErrNoFS), calls1 @ calls2)))"

subsection \<open>An example machine\<close>

text \<open>
  Concrete devices on which the functions are evaluated. The layouts are the leading
  parts of the on-disk superblocks: 64 bytes of EXT4 with the block count at 4, the
  free block count at 12, the block-size exponent at 24 and the magic at 56; 152 bytes
  of XFS with the magic at 0, the block size at 4, the block count at 8 and the free
  block count at 144. \<open>ext4_image lg\<close> is an EXT4 superblock of 1000 blocks, 400
  of them free, with exponent \<open>lg\<close>; \<open>xfs_image tb\<close> is an XFS superblock with
  block size 4096, the eight bytes \<open>tb\<close> as its block count and 250 free blocks.
\<close>

definition example_ext4_layout :: EXT4Layout where
  "example_ext4_layout =
     \<lparr>EXT4_sizeof = 64, NumBlocks_at = 4, EXT4_FreeBlocks_at = 12, LogBlockSize_at = 24,
      Magic_at = 56\<rparr>"

definition example_xfs_layout :: XFSLayout where
  "example_xfs_layout =
     \<lparr>XFS_sizeof = 152, MagicNumber_at = 0, BlockSize_at = 4, TotalBlocks_at = 8,
      XFS_FreeBlocks_at = 144\<rparr>"

definition ext4_image :: "byte \<Rightarrow> byte list" where
  "ext4_image lg =
     replicate 4 0 @ [0xE8, 0x03, 0, 0] @ replicate 4 0 @ [0x90, 0x01, 0, 0] @ replicate 8 0
     @ [lg, 0, 0, 0] @ replicate 28 0 @ [0x53, 0xEF] @ replicate 6 0"

definition xfs_image :: "byte list \<Rightarrow> byte list" where
  "xfs_image tb =
     [0x58, 0x46, 0x53, 0x42] @ [0, 0, 0x10, 0] @ tb @ replicate 128 0
     @ [0, 0, 0, 0, 0, 0, 0, 0xFA]"

definition disk :: "byte list \<Rightarrow> blockdev" where
  "disk bs = \<lparr>image = bs, kind = BlockDevice, open_fault = None, read_fault = None\<rparr>"

definition example_devices :: "(string \<times> blockdev) list" where
  "example_devices =
     [(''/dev/sda'', disk (ext4_image 2)),
      (''/dev/sdb'', disk (xfs_image [0, 0, 0, 0, 0, 0, 0x03, 0xE8])),
      (''/dev/sdc'', disk (replicate 152 0)),
      (''/dev/sdd'', disk (replicate 64 0)),
      (''/dev/sde'', disk [0x53, 0xEF]),
      (''/dev/sdf'', disk (ext4_image 54)),
      (''/dev/sdg'', disk (xfs_image [0, 0x10, 0, 0, 0, 0, 0, 0])),
      (''/dev/sdh'',
       \<lparr>image = ext4_image 2, kind = BlockDevice, open_fault = Some EACCES,
        read_fault = None\<rparr>),
      (''/dev/sdi'',
       \<lparr>image = ext4_image 2, kind = BlockDevice, open_fault = None,
        read_fault = Some EIO\<rparr>),
      (''/dev/sdj'', disk (replicate 512 0 @ ext4_image 2))]"

definition example :: env where
  "example =
     \<lparr>getBlockFile = (\<lambda>devName. ''/dev/'' @ devName),
      devices = map_of example_devices,
      ext4_layout = example_ext4_layout,
      xfs_layout = example_xfs_layout,
      uint64_overflow = (\<lambda>n. 0x8000000000000000)\<rparr>"

section \<open>Properties\<close>

subsection \<open>Evaluation and arithmetic\<close>

lemmas probe_defs =
  ProbeFSEXT4_def ProbeFSXFS_def os_OpenFile_def File_Seek_def seek_limit_def binary_Read_def
  decode_EXT4_def decode_XFS_def uint_at_def Uint_def EXT4SuperBlock_Is_def
  XFSSuperBlock_Is_def EXT4_SUPER_MAGIC_def XFS_SUPER_MAGIC_def uint64_Pow2_def Let_def

lemmas example_defs =
  example_def example_devices_def disk_def example_ext4_layout_def example_xfs_layout_def
  ext4_image_def xfs_image_def

lemma le_uint_replicate_0 [simp]: "le_uint (replicate n 0) = 0"
  by (induction n) simp_all

lemma unat_2p_64: "n < 64 \<Longrightarrow> unat (2 ^ n :: 64 word) = 2 ^ n"
proof -
  assume n: "n < 64"
  have lt: "(2::nat) ^ n < 2 ^ 64"
    using n by (rule power_strict_increasing) simp
  have "unat (2 ^ n :: 64 word) = unat (of_nat (2 ^ n) :: 64 word)"
    by simp
  also have "\<dots> = 2 ^ n mod 2 ^ LENGTH(64)"
    by (rule unat_of_nat)
  also have "\<dots> = 2 ^ n"
    using lt by simp
  finally show ?thesis .
qed

lemma unat_ucast_32_64: "unat (ucast (b :: 32 word) :: 64 word) = unat b"
proof -
  have "unat b < 2 ^ 32" using unsigned_less [of b] by simp
  then have "unat b < 2 ^ 64" by simp
  then show ?thesis by (simp add: unsigned_ucast_eq take_bit_nat_eq_self)
qed

lemma unat_mult_64_32:
  "unat (ucast (a :: 64 word) * ucast (b :: 32 word) :: 64 word) = (unat a * unat b) mod 2 ^ 64"
  by (simp add: unat_word_ariths unat_ucast_32_64)

lemma sint_eq_uint_64: "uint (w :: 64 word) < 2 ^ 63 \<Longrightarrow> sint w = uint w"
proof -
  assume lt: "uint w < 2 ^ 63"
  have "- (2 ^ 63) \<le> (0::int)" by simp
  also have "0 \<le> uint w" by simp
  finally have "signed_take_bit 63 (uint w) = uint w"
    using lt by (rule signed_take_bit_int_eq_self)
  then show ?thesis by (simp add: sint_uint)
qed

lemma sint_mult_64:
  fixes lbs off :: "64 word"
  assumes "unat lbs * unat off < 2 ^ 63"
  shows "sint (lbs * off) = int (unat lbs * unat off)"
proof -
  have "unat lbs * unat off < 2 ^ 64"
    using assms by simp
  then have u: "unat (lbs * off) = unat lbs * unat off"
    by (simp add: unat_word_ariths)
  have i: "uint (lbs * off) = int (unat (lbs * off))"
    by simp
  have "int (unat lbs * unat off) < 2 ^ 63"
    using assms by (metis of_nat_less_iff of_nat_numeral of_nat_power)
  then have "uint (lbs * off) < 2 ^ 63"
    by (simp only: i u)
  then have "sint (lbs * off) = uint (lbs * off)"
    by (rule sint_eq_uint_64)
  also have "\<dots> = int (unat lbs * unat off)"
    by (simp only: i u)
  finally show ?thesis .
qed

subsection \<open>The shape of the results\<close>

lemma ProbeFSEXT4_shape:
  "(\<exists>e calls. ProbeFSEXT4 env n lbs off = ((None, Some (OSError e)), calls))
   \<or> (\<exists>calls. ProbeFSEXT4 env n lbs off = ((None, Some ErrNotEXT4), calls))
   \<or> (\<exists>info calls. ProbeFSEXT4 env n lbs off = ((Some info, None), calls)
         \<and> Mounts info = [] \<and> FSType info = FSTypeEXT4)"
  by (simp add: ProbeFSEXT4_def Let_def split: sum.split)

lemma ProbeFSXFS_shape:
  "(\<exists>e calls. ProbeFSXFS env n lbs off = ((None, Some (OSError e)), calls))
   \<or> (\<exists>calls. ProbeFSXFS env n lbs off = ((None, Some ErrNotXFS), calls))
   \<or> (\<exists>info calls. ProbeFSXFS env n lbs off = ((Some info, None), calls)
         \<and> Mounts info = [] \<and> FSType info = FSTypeXFS)"
  by (simp add: ProbeFSXFS_def Let_def split: sum.split)

lemma ProbeFSEXT4_calls:
  "\<exists>rest. snd (ProbeFSEXT4 env n lbs off)
            = Call_ProbeFSEXT4 # Call_OpenFile (getBlockFile env n) # rest
     \<and> Call_ProbeFSXFS \<notin> set rest \<and> Call_ProbeFSEXT4 \<notin> set rest"
  by (simp add: ProbeFSEXT4_def Let_def split: sum.split)

lemma ProbeFSXFS_calls:
  "\<exists>rest. snd (ProbeFSXFS env n lbs off)
            = Call_ProbeFSXFS # Call_OpenFile (getBlockFile env n) # rest
     \<and> Call_ProbeFSXFS \<notin> set rest \<and> Call_ProbeFSEXT4 \<notin> set rest"
  by (simp add: ProbeFSXFS_def Let_def split: sum.split)

text \<open>The five ways through \<open>ProbeFS\<close>, by what the decoders return.\<close>

lemma ProbeFS_EXT4_found:
  "ProbeFSEXT4 env n lbs off = ((Some info, None), c) \<Longrightarrow>
   ProbeFS env n lbs off = ((Some info, None), c)"
  by (simp add: ProbeFS_def)

lemma ProbeFS_EXT4_failed:
  "ProbeFSEXT4 env n lbs off = ((None, Some (OSError e)), c) \<Longrightarrow>
   ProbeFS env n lbs off = ((None, Some (OSError e)), c)"
  by (simp add: ProbeFS_def)

lemma ProbeFS_XFS_found:
  "ProbeFSEXT4 env n lbs off = ((None, Some ErrNotEXT4), c1) \<Longrightarrow>
   ProbeFSXFS env n lbs off = ((Some info, None), c2) \<Longrightarrow>
   ProbeFS env n lbs off = ((Some info, None), c1 @ c2)"
  by (simp add: ProbeFS_def)

lemma ProbeFS_XFS_failed:
  "ProbeFSEXT4 env n lbs off = ((None, Some ErrNotEXT4), c1) \<Longrightarrow>
   ProbeFSXFS env n lbs off = ((None, Some (OSError e)), c2) \<Longrightarrow>
   ProbeFS env n lbs off = ((None, Some (OSError e)), c1 @ c2)"
  by (simp add: ProbeFS_def)

lemma ProbeFS_none_found:
  "ProbeFSEXT4 env n lbs off = ((None, Some ErrNotEXT4), c1) \<Longrightarrow>
   ProbeFSXFS env n lbs off = ((None, Some ErrNotXFS), c2) \<Longrightarrow>
   ProbeFS env n lbs off = ((None, Some ErrNoFS), c1 @ c2)"
  by (simp add: ProbeFS_def)

lemma ProbeFSEXT4_cases [consumes 0, case_names failed mismatch found]:
  obtains
    (failed) e c where "ProbeFSEXT4 env n lbs off = ((None, Some (OSError e)), c)"
  | (mismatch) c where "ProbeFSEXT4 env n lbs off = ((None, Some ErrNotEXT4), c)"
  | (found) info c where "ProbeFSEXT4 env n lbs off = ((Some info, None), c)"
      and "Mounts info = []" and "FSType info = FSTypeEXT4"
  using ProbeFSEXT4_shape [of env n lbs off] by blast

lemma ProbeFSXFS_cases [consumes 0, case_names failed mismatch found]:
  obtains
    (failed) e c where "ProbeFSXFS env n lbs off = ((None, Some (OSError e)), c)"
  | (mismatch) c where "ProbeFSXFS env n lbs off = ((None, Some ErrNotXFS), c)"
  | (found) info c where "ProbeFSXFS env n lbs off = ((Some info, None), c)"
      and "Mounts info = []" and "FSType info = FSTypeXFS"
  using ProbeFSXFS_shape [of env n lbs off] by blast

lemma ProbeFS_cases
  [consumes 0, case_names EXT4_found EXT4_failed XFS_found XFS_failed none_found]:
  obtains
    (EXT4_found) info c where "ProbeFSEXT4 env n lbs off = ((Some info, None), c)"
      and "ProbeFS env n lbs off = ((Some info, None), c)" and "Mounts info = []"
  | (EXT4_failed) e c where "ProbeFSEXT4 env n lbs off = ((None, Some (OSError e)), c)"
      and "ProbeFS env n lbs off = ((None, Some (OSError e)), c)"
  | (XFS_found) c1 info c2 where "ProbeFSEXT4 env n lbs off = ((None, Some ErrNotEXT4), c1)"
      and "ProbeFSXFS env n lbs off = ((Some info, None), c2)"
      and "ProbeFS env n lbs off = ((Some info, None), c1 @ c2)" and "Mounts info = []"
  | (XFS_failed) c1 e c2 where "ProbeFSEXT4 env n lbs off = ((None, Some ErrNotEXT4), c1)"
      and "ProbeFSXFS env n lbs off = ((None, Some (OSError e)), c2)"
      and "ProbeFS env n lbs off = ((None, Some (OSError e)), c1 @ c2)"
  | (none_found) c1 c2 where "ProbeFSEXT4 env n lbs off = ((None, Some ErrNotEXT4), c1)"
      and "ProbeFSXFS env n lbs off = ((None, Some ErrNotXFS), c2)"
      and "ProbeFS env n lbs off = ((None, Some ErrNoFS), c1 @ c2)"
proof (cases rule: ProbeFSEXT4_cases [of env n lbs off])
  case (failed e c)
  then show ?thesis using EXT4_failed ProbeFS_EXT4_failed by blast
next
  case (found info c)
  then show ?thesis using EXT4_found ProbeFS_EXT4_found by blast
next
  case ext4: (mismatch c1)
  show ?thesis
  proof (cases rule: ProbeFSXFS_cases [of env n lbs off])
    case (failed e c2)
    with ext4 show ?thesis using XFS_failed ProbeFS_XFS_failed by blast
  next
    case (mismatch c2)
    with ext4 show ?thesis using none_found ProbeFS_none_found by blast
  next
    case (found info c2)
    with ext4 show ?thesis using XFS_found ProbeFS_XFS_found by blast
  qed
qed

text \<open>What a decoder that found its format has read and what it reports.\<close>

lemma ProbeFSEXT4_found_reads:
  assumes "fst (fst (ProbeFSEXT4 env n lbs off)) = Some info"
  shows "\<exists>d. devices env (getBlockFile env n) = Some d \<and>
     (let ext4 = decode_EXT4 (ext4_layout env) LittleEndian
                   (take (EXT4_sizeof (ext4_layout env)) (drop (nat (sint (lbs * off))) (image d)));
          fsBlockSize = uint64_Pow2 env (unat (10 + LogBlockSize ext4))
      in EXT4SuperBlock_Is ext4 \<and>
         info = \<lparr>FSType = FSTypeEXT4,
                 TotalCapacity = ucast (NumBlocks ext4) * fsBlockSize,
                 FreeCapacity = ucast (EXT4SuperBlock.FreeBlocks ext4) * fsBlockSize,
                 FSBlockSize = fsBlockSize,
                 Mounts = []\<rparr>)"
  using assms
  by (auto simp: ProbeFSEXT4_def os_OpenFile_def File_Seek_def binary_Read_def Let_def
      split: option.splits if_splits)

lemma ProbeFSXFS_found_reads:
  assumes "fst (fst (ProbeFSXFS env n lbs off)) = Some info"
  shows "\<exists>d. devices env (getBlockFile env n) = Some d \<and>
     (let xfs = decode_XFS (xfs_layout env) BigEndian
                   (take (XFS_sizeof (xfs_layout env)) (drop (nat (sint (lbs * off))) (image d)))
      in XFSSuperBlock_Is xfs \<and>
         info = \<lparr>FSType = FSTypeXFS,
                 TotalCapacity = ucast (TotalBlocks xfs) * ucast (BlockSize xfs),
                 FreeCapacity = ucast (XFSSuperBlock.FreeBlocks xfs) * ucast (BlockSize xfs),
                 FSBlockSize = ucast (BlockSize xfs),
                 Mounts = []\<rparr>)"
  using assms
  by (auto simp: ProbeFSXFS_def os_OpenFile_def File_Seek_def binary_Read_def Let_def
      split: option.splits if_splits)

subsection \<open>The example machine, evaluated\<close>

lemma example_sda_EXT4:
  "ProbeFSEXT4 example ''sda'' 512 0 =
     ((Some \<lparr>FSType = FSTypeEXT4, TotalCapacity = 4096000, FreeCapacity = 1638400,
             FSBlockSize = 4096, Mounts = []\<rparr>, None),
      [Call_ProbeFSEXT4, Call_OpenFile ''/dev/sda'', Call_Seek 0,
       Call_Read LittleEndian 0 64, Call_Close])"
  by (simp add: probe_defs example_defs)

lemma example_sdb_EXT4:
  "ProbeFSEXT4 example ''sdb'' 512 0 =
     ((None, Some ErrNotEXT4),
      [Call_ProbeFSEXT4, Call_OpenFile ''/dev/sdb'', Call_Seek 0,
       Call_Read LittleEndian 0 64, Call_Close])"
  by (simp add: probe_defs example_defs)

lemma example_sdb_XFS:
  "ProbeFSXFS example ''sdb'' 512 0 =
     ((Some \<lparr>FSType = FSTypeXFS, TotalCapacity = 4096000, FreeCapacity = 1024000,
             FSBlockSize = 4096, Mounts = []\<rparr>, None),
      [Call_ProbeFSXFS, Call_OpenFile ''/dev/sdb'', Call_Seek 0,
       Call_Read BigEndian 0 152, Call_Close])"
  by (simp add: probe_defs example_defs)

text \<open>A decoder on a device with too few bytes at the position.\<close>

lemma ProbeFSEXT4_truncated:
  assumes "devices env (getBlockFile env n) = Some d"
    and "length (drop (nat (sint (lbs * off))) (image d)) < EXT4_sizeof (ext4_layout env)"
  shows "\<exists>x calls. ProbeFSEXT4 env n lbs off = ((None, Some (OSError x)), calls)
     \<and> (open_fault d = None \<and> read_fault d = None \<and> 0 \<le> sint (lbs * off)
          \<and> nat (sint (lbs * off)) \<le> seek_limit d \<longrightarrow>
            x = EOF \<or> x = ErrUnexpectedEOF)
     \<and> (open_fault d = None
          \<and> (sint (lbs * off) < 0 \<or> seek_limit d < nat (sint (lbs * off))) \<longrightarrow>
            x = PathError ''seek'' (getBlockFile env n) EINVAL)"
  using assms
  by (cases "open_fault d"; cases "read_fault d"; cases "0 \<le> sint (lbs * off)";
      cases "nat (sint (lbs * off)) \<le> seek_limit d")
     (auto simp: ProbeFSEXT4_def os_OpenFile_def File_Seek_def binary_Read_def Let_def)

lemma ProbeFSXFS_truncated:
  assumes "devices env (getBlockFile env n) = Some d"
    and "length (drop (nat (sint (lbs * off))) (image d)) < XFS_sizeof (xfs_layout env)"
  shows "\<exists>x calls. ProbeFSXFS env n lbs off = ((None, Some (OSError x)), calls)
     \<and> (open_fault d = None \<and> read_fault d = None \<and> 0 \<le> sint (lbs * off)
          \<and> nat (sint (lbs * off)) \<le> seek_limit d \<longrightarrow>
            x = EOF \<or> x = ErrUnexpectedEOF)
     \<and> (open_fault d = None
          \<and> (sint (lbs * off) < 0 \<or> seek_limit d < nat (sint (lbs * off))) \<longrightarrow>
            x = PathError ''seek'' (getBlockFile env n) EINVAL)"
  using assms
  by (cases "open_fault d"; cases "read_fault d"; cases "0 \<le> sint (lbs * off)";
      cases "nat (sint (lbs * off)) \<le> seek_limit d")
     (auto simp: ProbeFSXFS_def os_OpenFile_def File_Seek_def binary_Read_def Let_def)

text \<open>The calls and the seek error of a decoder on a device that opens.\<close>

lemma ProbeFSEXT4_opened_calls:
  assumes "devices env (getBlockFile env n) = Some d" and "open_fault d = None"
  shows "snd (ProbeFSEXT4 env n lbs off) =
     Call_ProbeFSEXT4 # Call_OpenFile (getBlockFile env n) # Call_Seek (sint (lbs * off))
     # (if sint (lbs * off) < 0 \<or> int (seek_limit d) < sint (lbs * off) then [Call_Close]
        else [Call_Read LittleEndian (nat (sint (lbs * off))) (EXT4_sizeof (ext4_layout env)),
              Call_Close])"
  using assms
  by (simp add: ProbeFSEXT4_def os_OpenFile_def File_Seek_def Let_def split: sum.split)

lemma ProbeFSXFS_opened_calls:
  assumes "devices env (getBlockFile env n) = Some d" and "open_fault d = None"
  shows "snd (ProbeFSXFS env n lbs off) =
     Call_ProbeFSXFS # Call_OpenFile (getBlockFile env n) # Call_Seek (sint (lbs * off))
     # (if sint (lbs * off) < 0 \<or> int (seek_limit d) < sint (lbs * off) then [Call_Close]
        else [Call_Read BigEndian (nat (sint (lbs * off))) (XFS_sizeof (xfs_layout env)),
              Call_Close])"
  using assms
  by (simp add: ProbeFSXFS_def os_OpenFile_def File_Seek_def Let_def split: sum.split)

lemma ProbeFSEXT4_seek_refused:
  assumes "devices env (getBlockFile env n) = Some d" and "open_fault d = None"
    and "sint (lbs * off) < 0 \<or> int (seek_limit d) < sint (lbs * off)"
  shows "fst (ProbeFSEXT4 env n lbs off)
     = (None, Some (OSError (PathError ''seek'' (getBlockFile env n) EINVAL)))"
  using assms
  by (auto simp: ProbeFSEXT4_def os_OpenFile_def File_Seek_def Let_def)

lemma ProbeFSXFS_seek_refused:
  assumes "devices env (getBlockFile env n) = Some d" and "open_fault d = None"
    and "sint (lbs * off) < 0 \<or> int (seek_limit d) < sint (lbs * off)"
  shows "fst (ProbeFSXFS env n lbs off)
     = (None, Some (OSError (PathError ''seek'' (getBlockFile env n) EINVAL)))"
  using assms
  by (auto simp: ProbeFSXFS_def os_OpenFile_def File_Seek_def Let_def)

text \<open>Lookups in the constant block.\<close>

lemma magic_number_EXT2: "map_of magic_numbers ''EXT2_SUPER_MAGIC'' = Some 0xEF53"
  by (simp add: magic_numbers_def)

lemma magic_number_EXT3: "map_of magic_numbers ''EXT3_SUPER_MAGIC'' = Some 0xEF53"
  by (simp add: magic_numbers_def)

lemma magic_number_EXT4: "map_of magic_numbers ''EXT4_SUPER_MAGIC'' = Some 0xEF53"
  by (simp add: magic_numbers_def)

lemma magic_number_XFS: "map_of magic_numbers ''XFS_SUPER_MAGIC'' = Some 0x58465342"
  by (simp add: magic_numbers_def)

lemma magic_names_EXT:
  "magic_names 0xEF53 = [''EXT2_SUPER_MAGIC'', ''EXT3_SUPER_MAGIC'', ''EXT4_SUPER_MAGIC'']"
  by (simp add: magic_names_def magic_numbers_def)

lemma magic_names_XFS: "magic_names 0x58465342 = [''XFS_SUPER_MAGIC'']"
  by (simp add: magic_names_def magic_numbers_def)

section \<open>The claims\<close>

subsection \<open>C1: EXT4 is tried before XFS\<close>

text \<open>
  Claim C1. For every device, logical block size and block offset, \<open>ProbeFS\<close> calls
  the EXT4 decoder first: the calls of \<open>ProbeFS\<close> are those of \<open>ProbeFSEXT4\<close>,
  followed by those of \<open>ProbeFSXFS\<close> or by nothing. When the EXT4 decoder returns a
  \<open>FSInfo\<close>, \<open>ProbeFS\<close> returns it with a nil error and the XFS decoder is not
  called.
\<close>

theorem ProbeFS_tries_EXT4_first:
  "(\<exists>rest. snd (ProbeFSEXT4 env devName lbs off) = Call_ProbeFSEXT4 # rest
       \<and> Call_ProbeFSXFS \<notin> set rest)
   \<and> (snd (ProbeFS env devName lbs off) = snd (ProbeFSEXT4 env devName lbs off)
        \<or> snd (ProbeFS env devName lbs off)
            = snd (ProbeFSEXT4 env devName lbs off) @ snd (ProbeFSXFS env devName lbs off))
   \<and> (\<forall>info. fst (fst (ProbeFSEXT4 env devName lbs off)) = Some info \<longrightarrow>
         ProbeFS env devName lbs off
           = ((Some info, None), snd (ProbeFSEXT4 env devName lbs off))
         \<and> Call_ProbeFSXFS \<notin> set (snd (ProbeFS env devName lbs off)))"
proof (intro conjI allI impI)
  show "\<exists>rest. snd (ProbeFSEXT4 env devName lbs off) = Call_ProbeFSEXT4 # rest
          \<and> Call_ProbeFSXFS \<notin> set rest"
    using ProbeFSEXT4_calls [of env devName lbs off] by auto
next
  show "snd (ProbeFS env devName lbs off) = snd (ProbeFSEXT4 env devName lbs off)
        \<or> snd (ProbeFS env devName lbs off)
            = snd (ProbeFSEXT4 env devName lbs off) @ snd (ProbeFSXFS env devName lbs off)"
    by (cases rule: ProbeFS_cases [of env devName lbs off]) simp_all
next
  fix info
  assume found: "fst (fst (ProbeFSEXT4 env devName lbs off)) = Some info"
  have ext4: "ProbeFSEXT4 env devName lbs off
      = ((Some info, None), snd (ProbeFSEXT4 env devName lbs off))"
    using found by (cases rule: ProbeFSEXT4_cases [of env devName lbs off]) simp_all
  then show all: "ProbeFS env devName lbs off
      = ((Some info, None), snd (ProbeFSEXT4 env devName lbs off))"
    by (rule ProbeFS_EXT4_found)
  show "Call_ProbeFSXFS \<notin> set (snd (ProbeFS env devName lbs off))"
    using ProbeFSEXT4_calls [of env devName lbs off] by (auto simp: all)
qed

theorem ProbeFS_tries_EXT4_first_witness:
  "fst (fst (ProbeFSEXT4 example ''sda'' 512 0))
     = Some \<lparr>FSType = FSTypeEXT4, TotalCapacity = 4096000, FreeCapacity = 1638400,
             FSBlockSize = 4096, Mounts = []\<rparr>
   \<and> ProbeFS example ''sda'' 512 0
     = ((Some \<lparr>FSType = FSTypeEXT4, TotalCapacity = 4096000, FreeCapacity = 1638400,
               FSBlockSize = 4096, Mounts = []\<rparr>, None),
        [Call_ProbeFSEXT4, Call_OpenFile ''/dev/sda'', Call_Seek 0,
         Call_Read LittleEndian 0 64, Call_Close])
   \<and> Call_ProbeFSXFS \<notin> set (snd (ProbeFS example ''sda'' 512 0))"
  using ProbeFS_tries_EXT4_first [of example "''sda''" 512 0]
  by (simp add: example_sda_EXT4)

subsection \<open>C2: device-access errors are propagated\<close>

text \<open>
  Claim C2. When a decoder returns an error other than its own "not this format"
  value, \<open>ProbeFS\<close> returns that error unchanged with a nil result: from the EXT4
  decoder at once, without a call of the XFS decoder; from the XFS decoder after the
  EXT4 decoder reported "not this format". Such an error is an error of the device
  access and is never \<open>ErrNoFS\<close>.
\<close>

theorem ProbeFS_propagates_hard_errors:
  "(\<forall>e. snd (fst (ProbeFSEXT4 env devName lbs off)) = Some e \<and> e \<noteq> ErrNotEXT4 \<longrightarrow>
        ProbeFS env devName lbs off
          = ((None, Some e), snd (ProbeFSEXT4 env devName lbs off))
        \<and> Call_ProbeFSXFS \<notin> set (snd (ProbeFS env devName lbs off))
        \<and> (\<exists>x. e = OSError x) \<and> e \<noteq> ErrNoFS)
   \<and> (\<forall>e. snd (fst (ProbeFSEXT4 env devName lbs off)) = Some ErrNotEXT4
          \<and> snd (fst (ProbeFSXFS env devName lbs off)) = Some e \<and> e \<noteq> ErrNotXFS \<longrightarrow>
        fst (ProbeFS env devName lbs off) = (None, Some e)
        \<and> (\<exists>x. e = OSError x) \<and> e \<noteq> ErrNoFS)"
proof (intro conjI allI impI)
  fix e
  assume a: "snd (fst (ProbeFSEXT4 env devName lbs off)) = Some e \<and> e \<noteq> ErrNotEXT4"
  then obtain x where ext4: "ProbeFSEXT4 env devName lbs off
      = ((None, Some (OSError x)), snd (ProbeFSEXT4 env devName lbs off))" and e: "e = OSError x"
    by (cases rule: ProbeFSEXT4_cases [of env devName lbs off]) auto
  from ext4 have all: "ProbeFS env devName lbs off
      = ((None, Some (OSError x)), snd (ProbeFSEXT4 env devName lbs off))"
    by (rule ProbeFS_EXT4_failed)
  show "ProbeFS env devName lbs off = ((None, Some e), snd (ProbeFSEXT4 env devName lbs off))"
    using all e by simp
  show "Call_ProbeFSXFS \<notin> set (snd (ProbeFS env devName lbs off))"
    using ProbeFSEXT4_calls [of env devName lbs off] by (auto simp: all)
  show "\<exists>x. e = OSError x" using e by blast
  show "e \<noteq> ErrNoFS" using e by simp
next
  fix e
  assume a: "snd (fst (ProbeFSEXT4 env devName lbs off)) = Some ErrNotEXT4
          \<and> snd (fst (ProbeFSXFS env devName lbs off)) = Some e \<and> e \<noteq> ErrNotXFS"
  then obtain c1 where ext4: "ProbeFSEXT4 env devName lbs off = ((None, Some ErrNotEXT4), c1)"
    by (cases rule: ProbeFSEXT4_cases [of env devName lbs off]) auto
  from a obtain x c2 where xfs: "ProbeFSXFS env devName lbs off = ((None, Some (OSError x)), c2)"
    and e: "e = OSError x"
    by (cases rule: ProbeFSXFS_cases [of env devName lbs off]) auto
  show "fst (ProbeFS env devName lbs off) = (None, Some e)"
    using ProbeFS_XFS_failed [OF ext4 xfs] e by simp
  show "\<exists>x. e = OSError x" using e by blast
  show "e \<noteq> ErrNoFS" using e by simp
qed

lemma example_sdh_EXT4:
  "ProbeFSEXT4 example ''sdh'' 512 0 =
     ((None, Some (OSError (PathError ''open'' ''/dev/sdh'' EACCES))),
      [Call_ProbeFSEXT4, Call_OpenFile ''/dev/sdh''])"
  by (simp add: probe_defs example_defs)

lemma example_sda_seek_EXT4:
  "ProbeFSEXT4 example ''sda'' 0x8000000000000000 1 =
     ((None, Some (OSError (PathError ''seek'' ''/dev/sda'' EINVAL))),
      [Call_ProbeFSEXT4, Call_OpenFile ''/dev/sda'', Call_Seek (- 9223372036854775808),
       Call_Close])"
  by (simp add: probe_defs example_defs)

lemma example_sdi_EXT4:
  "ProbeFSEXT4 example ''sdi'' 512 0 =
     ((None, Some (OSError (PathError ''read'' ''/dev/sdi'' EIO))),
      [Call_ProbeFSEXT4, Call_OpenFile ''/dev/sdi'', Call_Seek 0,
       Call_Read LittleEndian 0 64, Call_Close])"
  by (simp add: probe_defs example_defs)

lemma example_sdd_EXT4:
  "ProbeFSEXT4 example ''sdd'' 512 0 =
     ((None, Some ErrNotEXT4),
      [Call_ProbeFSEXT4, Call_OpenFile ''/dev/sdd'', Call_Seek 0,
       Call_Read LittleEndian 0 64, Call_Close])"
  by (simp add: probe_defs example_defs)

lemma example_sdd_XFS:
  "ProbeFSXFS example ''sdd'' 512 0 =
     ((None, Some (OSError ErrUnexpectedEOF)),
      [Call_ProbeFSXFS, Call_OpenFile ''/dev/sdd'', Call_Seek 0,
       Call_Read BigEndian 0 152, Call_Close])"
  by (simp add: probe_defs example_defs)

theorem ProbeFS_propagates_hard_errors_witness:
  "ProbeFS example ''sdh'' 512 0 =
     ((None, Some (OSError (PathError ''open'' ''/dev/sdh'' EACCES))),
      [Call_ProbeFSEXT4, Call_OpenFile ''/dev/sdh''])
   \<and> ProbeFS example ''sda'' 0x8000000000000000 1 =
     ((None, Some (OSError (PathError ''seek'' ''/dev/sda'' EINVAL))),
      [Call_ProbeFSEXT4, Call_OpenFile ''/dev/sda'', Call_Seek (- 9223372036854775808),
       Call_Close])
   \<and> ProbeFS example ''sdi'' 512 0 =
     ((None, Some (OSError (PathError ''read'' ''/dev/sdi'' EIO))),
      [Call_ProbeFSEXT4, Call_OpenFile ''/dev/sdi'', Call_Seek 0,
       Call_Read LittleEndian 0 64, Call_Close])
   \<and> snd (fst (ProbeFSEXT4 example ''sdd'' 512 0)) = Some ErrNotEXT4
   \<and> snd (fst (ProbeFSXFS example ''sdd'' 512 0)) = Some (OSError ErrUnexpectedEOF)
   \<and> fst (ProbeFS example ''sdd'' 512 0) = (None, Some (OSError ErrUnexpectedEOF))"
  using ProbeFS_propagates_hard_errors [of example "''sdh''" 512 0]
    ProbeFS_propagates_hard_errors [of example "''sda''" "0x8000000000000000" 1]
    ProbeFS_propagates_hard_errors [of example "''sdi''" 512 0]
    ProbeFS_propagates_hard_errors [of example "''sdd''" 512 0]
  by (simp add: example_sdh_EXT4 example_sda_seek_EXT4 example_sdi_EXT4 example_sdd_EXT4
      example_sdd_XFS)

subsection \<open>C3: no filesystem found\<close>

text \<open>
  Claim C3. When the EXT4 decoder returns \<open>ErrNotEXT4\<close> and then the XFS decoder
  returns \<open>ErrNotXFS\<close>, \<open>ProbeFS\<close> returns a nil result and \<open>ErrNoFS\<close>.
  \<open>ProbeFS\<close> returns \<open>ErrNoFS\<close> in no other case, and \<open>ErrNoFS\<close> differs from
  every error of the device access and from both "not this format" values.
\<close>

theorem ProbeFS_no_filesystem:
  "(snd (fst (ProbeFSEXT4 env devName lbs off)) = Some ErrNotEXT4
      \<and> snd (fst (ProbeFSXFS env devName lbs off)) = Some ErrNotXFS \<longrightarrow>
    fst (ProbeFS env devName lbs off) = (None, Some ErrNoFS))
   \<and> (snd (fst (ProbeFS env devName lbs off)) = Some ErrNoFS \<longrightarrow>
        snd (fst (ProbeFSEXT4 env devName lbs off)) = Some ErrNotEXT4
        \<and> snd (fst (ProbeFSXFS env devName lbs off)) = Some ErrNotXFS)
   \<and> (\<forall>x. ErrNoFS \<noteq> OSError x) \<and> ErrNoFS \<noteq> ErrNotEXT4 \<and> ErrNoFS \<noteq> ErrNotXFS"
proof (intro conjI allI impI)
  assume a: "snd (fst (ProbeFSEXT4 env devName lbs off)) = Some ErrNotEXT4
      \<and> snd (fst (ProbeFSXFS env devName lbs off)) = Some ErrNotXFS"
  then obtain c1 where ext4: "ProbeFSEXT4 env devName lbs off = ((None, Some ErrNotEXT4), c1)"
    by (cases rule: ProbeFSEXT4_cases [of env devName lbs off]) auto
  from a obtain c2 where xfs: "ProbeFSXFS env devName lbs off = ((None, Some ErrNotXFS), c2)"
    by (cases rule: ProbeFSXFS_cases [of env devName lbs off]) auto
  show "fst (ProbeFS env devName lbs off) = (None, Some ErrNoFS)"
    using ProbeFS_none_found [OF ext4 xfs] by simp
next
  assume a: "snd (fst (ProbeFS env devName lbs off)) = Some ErrNoFS"
  then show "snd (fst (ProbeFSEXT4 env devName lbs off)) = Some ErrNotEXT4"
    by (cases rule: ProbeFS_cases [of env devName lbs off]) simp_all
  from a show "snd (fst (ProbeFSXFS env devName lbs off)) = Some ErrNotXFS"
    by (cases rule: ProbeFS_cases [of env devName lbs off]) simp_all
qed simp_all

lemma example_sdc_EXT4:
  "ProbeFSEXT4 example ''sdc'' 512 0 =
     ((None, Some ErrNotEXT4),
      [Call_ProbeFSEXT4, Call_OpenFile ''/dev/sdc'', Call_Seek 0,
       Call_Read LittleEndian 0 64, Call_Close])"
  by (simp add: probe_defs example_defs)

lemma example_sdc_XFS:
  "ProbeFSXFS example ''sdc'' 512 0 =
     ((None, Some ErrNotXFS),
      [Call_ProbeFSXFS, Call_OpenFile ''/dev/sdc'', Call_Seek 0,
       Call_Read BigEndian 0 152, Call_Close])"
  by (simp add: probe_defs example_defs)

theorem ProbeFS_no_filesystem_witness:
  "snd (fst (ProbeFSEXT4 example ''sdc'' 512 0)) = Some ErrNotEXT4
   \<and> snd (fst (ProbeFSXFS example ''sdc'' 512 0)) = Some ErrNotXFS
   \<and> fst (ProbeFS example ''sdc'' 512 0) = (None, Some ErrNoFS)"
  using ProbeFS_no_filesystem [of example "''sdc''" 512 0]
  by (simp add: example_sdc_EXT4 example_sdc_XFS)

subsection \<open>C4: the block size of EXT4\<close>

text \<open>
  Claim C4, as amended. Whenever the EXT4 decoder returns a \<open>FSInfo\<close>, it has read
  from the device, at the position of the seek, a superblock structure with the EXT4
  magic, and if the exponent \<open>LogBlockSize\<close> of that structure is at most 53 then
  \<open>FSBlockSize\<close> is exactly \<open>2 ^ (10 + LogBlockSize)\<close>; for the exponent 2 it is
  4096.
\<close>

theorem EXT4_block_size:
  "\<forall>info. fst (fst (ProbeFSEXT4 env devName lbs off)) = Some info \<longrightarrow>
     (\<exists>d. devices env (getBlockFile env devName) = Some d \<and>
        (let ext4 = decode_EXT4 (ext4_layout env) LittleEndian
                      (take (EXT4_sizeof (ext4_layout env))
                         (drop (nat (sint (lbs * off))) (image d)))
         in EXT4SuperBlock_Is ext4 \<and>
            (unat (LogBlockSize ext4) \<le> 53 \<longrightarrow>
               unat (FSBlockSize info) = 2 ^ (10 + unat (LogBlockSize ext4)))))"
proof (intro allI impI)
  fix info
  assume found: "fst (fst (ProbeFSEXT4 env devName lbs off)) = Some info"
  from ProbeFSEXT4_found_reads [OF found]
  obtain d where d: "devices env (getBlockFile env devName) = Some d"
    and r: "let ext4 = decode_EXT4 (ext4_layout env) LittleEndian
                   (take (EXT4_sizeof (ext4_layout env)) (drop (nat (sint (lbs * off))) (image d)));
          fsBlockSize = uint64_Pow2 env (unat (10 + LogBlockSize ext4))
      in EXT4SuperBlock_Is ext4 \<and>
         info = \<lparr>FSType = FSTypeEXT4,
                 TotalCapacity = ucast (NumBlocks ext4) * fsBlockSize,
                 FreeCapacity = ucast (EXT4SuperBlock.FreeBlocks ext4) * fsBlockSize,
                 FSBlockSize = fsBlockSize,
                 Mounts = []\<rparr>"
    by blast
  define ext4 where "ext4 = decode_EXT4 (ext4_layout env) LittleEndian
      (take (EXT4_sizeof (ext4_layout env)) (drop (nat (sint (lbs * off))) (image d)))"
  from r have valid: "EXT4SuperBlock_Is ext4"
    and bs: "FSBlockSize info = uint64_Pow2 env (unat (10 + LogBlockSize ext4))"
    by (simp_all add: Let_def ext4_def)
  have pow: "unat (FSBlockSize info) = 2 ^ (10 + unat (LogBlockSize ext4))"
    if le: "unat (LogBlockSize ext4) \<le> 53"
  proof -
    have n: "unat (10 + LogBlockSize ext4) = 10 + unat (LogBlockSize ext4)"
      using le by (simp add: unat_word_ariths)
    then have "unat (10 + LogBlockSize ext4) < 64"
      using le by simp
    then show ?thesis
      by (simp add: bs uint64_Pow2_def unat_2p_64 n)
  qed
  show "\<exists>d. devices env (getBlockFile env devName) = Some d \<and>
        (let ext4 = decode_EXT4 (ext4_layout env) LittleEndian
                      (take (EXT4_sizeof (ext4_layout env))
                         (drop (nat (sint (lbs * off))) (image d)))
         in EXT4SuperBlock_Is ext4 \<and>
            (unat (LogBlockSize ext4) \<le> 53 \<longrightarrow>
               unat (FSBlockSize info) = 2 ^ (10 + unat (LogBlockSize ext4))))"
    using d valid pow unfolding Let_def ext4_def by blast
qed

lemma example_sda_superblock:
  "decode_EXT4 (ext4_layout example) LittleEndian
     (take (EXT4_sizeof (ext4_layout example)) (ext4_image lg))
   = \<lparr>NumBlocks = 1000, FreeBlocks = 400, LogBlockSize = ucast lg, Magic = 0xEF53\<rparr>"
  by (simp add: decode_EXT4_def uint_at_def Uint_def example_def example_ext4_layout_def
      ext4_image_def)

theorem EXT4_block_size_witness:
  "fst (fst (ProbeFSEXT4 example ''sda'' 512 0))
     = Some \<lparr>FSType = FSTypeEXT4, TotalCapacity = 4096000, FreeCapacity = 1638400,
             FSBlockSize = 4096, Mounts = []\<rparr>
   \<and> devices example (getBlockFile example ''sda'') = Some (disk (ext4_image 2))
   \<and> LogBlockSize (decode_EXT4 (ext4_layout example) LittleEndian
        (take (EXT4_sizeof (ext4_layout example))
           (drop (nat (sint (512 * 0 :: 64 word))) (image (disk (ext4_image 2)))))) = 2
   \<and> unat (FSBlockSize \<lparr>FSType = FSTypeEXT4, TotalCapacity = 4096000, FreeCapacity = 1638400,
             FSBlockSize = 4096, Mounts = []\<rparr>) = 2 ^ (10 + 2)"
proof -
  have found: "fst (fst (ProbeFSEXT4 example ''sda'' 512 0))
     = Some \<lparr>FSType = FSTypeEXT4, TotalCapacity = 4096000, FreeCapacity = 1638400,
             FSBlockSize = 4096, Mounts = []\<rparr>"
    by (simp add: example_sda_EXT4)
  have sda: "devices example (getBlockFile example ''sda'') = Some (disk (ext4_image 2))"
    by (simp add: example_def example_devices_def)
  have lg: "LogBlockSize (decode_EXT4 (ext4_layout example) LittleEndian
        (take (EXT4_sizeof (ext4_layout example))
           (drop (nat (sint (512 * 0 :: 64 word))) (image (disk (ext4_image 2)))))) = 2"
    by (simp add: disk_def example_sda_superblock)
  from EXT4_block_size [of example "''sda''" 512 0] found sda
  have "unat (LogBlockSize (decode_EXT4 (ext4_layout example) LittleEndian
        (take (EXT4_sizeof (ext4_layout example))
           (drop (nat (sint (512 * 0 :: 64 word))) (image (disk (ext4_image 2))))))) \<le> 53 \<longrightarrow>
     unat (FSBlockSize \<lparr>FSType = FSTypeEXT4, TotalCapacity = 4096000, FreeCapacity = 1638400,
             FSBlockSize = 4096, Mounts = []\<rparr>)
       = 2 ^ (10 + unat (LogBlockSize (decode_EXT4 (ext4_layout example) LittleEndian
        (take (EXT4_sizeof (ext4_layout example))
           (drop (nat (sint (512 * 0 :: 64 word))) (image (disk (ext4_image 2))))))))"
    by (simp add: Let_def)
  then have "unat (FSBlockSize \<lparr>FSType = FSTypeEXT4, TotalCapacity = 4096000,
      FreeCapacity = 1638400, FSBlockSize = 4096, Mounts = []\<rparr>) = 2 ^ (10 + 2)"
    unfolding lg by simp
  with found sda lg show ?thesis by blast
qed

text \<open>
  The claim as stated fails for an exponent above 53: \<open>2 ^ (10 + LogBlockSize)\<close> is
  then at least \<open>2 ^ 64\<close>, which no \<open>uint64\<close> holds. The device \<open>sdf\<close> has a
  superblock with the EXT4 magic and the exponent 54; the decoder accepts it and reports
  the value that the conversion of the float64 \<open>2 ^ 64\<close> gives on the example machine.
\<close>

theorem EXT4_block_size_counterexample:
  "decode_EXT4 (ext4_layout example) LittleEndian
     (take (EXT4_sizeof (ext4_layout example))
        (drop (nat (sint (512 * 0 :: 64 word))) (ext4_image 54)))
     = \<lparr>NumBlocks = 1000, FreeBlocks = 400, LogBlockSize = 54, Magic = 0xEF53\<rparr>
   \<and> fst (ProbeFSEXT4 example ''sdf'' 512 0)
     = (Some \<lparr>FSType = FSTypeEXT4, TotalCapacity = 0, FreeCapacity = 0,
              FSBlockSize = 0x8000000000000000, Mounts = []\<rparr>, None)
   \<and> unat (0x8000000000000000 :: 64 word) \<noteq> 2 ^ (10 + 54)"
  by (simp add: probe_defs example_defs)

text \<open>
  Whatever the conversion gives there: the block size reported for an exponent above 53
  is never the power of two of the claim.
\<close>

lemma EXT4_block_size_above_53:
  "53 < lg \<Longrightarrow> unat (FSBlockSize info) \<noteq> 2 ^ (10 + lg)"
proof -
  assume "53 < lg"
  then have "(2::nat) ^ 64 \<le> 2 ^ (10 + lg)"
    by (intro power_increasing) simp_all
  moreover have "unat (FSBlockSize info) < 2 ^ 64"
    using unsigned_less [of "FSBlockSize info"] by simp
  ultimately show ?thesis by simp
qed

subsection \<open>C5: the capacities of XFS\<close>

text \<open>
  Claim C5, as amended. Whenever the XFS decoder returns a \<open>FSInfo\<close>, it has read
  from the device, at the position of the seek, a superblock structure with the XFS
  magic; \<open>FSBlockSize\<close> is the block size stored in that structure, and
  \<open>TotalCapacity\<close> and \<open>FreeCapacity\<close> are the products of the block count and of
  the free block count with the block size, reduced modulo \<open>2 ^ 64\<close>: the products
  themselves whenever they are below \<open>2 ^ 64\<close>. A block size of 4096 with 1000 blocks
  gives the total capacity 4096000.
\<close>

theorem XFS_capacity:
  "\<forall>info. fst (fst (ProbeFSXFS env devName lbs off)) = Some info \<longrightarrow>
     (\<exists>d. devices env (getBlockFile env devName) = Some d \<and>
        (let xfs = decode_XFS (xfs_layout env) BigEndian
                     (take (XFS_sizeof (xfs_layout env))
                        (drop (nat (sint (lbs * off))) (image d)))
         in XFSSuperBlock_Is xfs
            \<and> unat (FSBlockSize info) = unat (BlockSize xfs)
            \<and> unat (TotalCapacity info)
                = (unat (TotalBlocks xfs) * unat (BlockSize xfs)) mod 2 ^ 64
            \<and> unat (FreeCapacity info)
                = (unat (XFSSuperBlock.FreeBlocks xfs) * unat (BlockSize xfs)) mod 2 ^ 64
            \<and> (unat (TotalBlocks xfs) * unat (BlockSize xfs) < 2 ^ 64 \<longrightarrow>
                 unat (TotalCapacity info) = unat (TotalBlocks xfs) * unat (BlockSize xfs))
            \<and> (unat (XFSSuperBlock.FreeBlocks xfs) * unat (BlockSize xfs) < 2 ^ 64 \<longrightarrow>
                 unat (FreeCapacity info)
                   = unat (XFSSuperBlock.FreeBlocks xfs) * unat (BlockSize xfs))))"
proof (intro allI impI)
  fix info
  assume found: "fst (fst (ProbeFSXFS env devName lbs off)) = Some info"
  from ProbeFSXFS_found_reads [OF found]
  obtain d where d: "devices env (getBlockFile env devName) = Some d"
    and r: "let xfs = decode_XFS (xfs_layout env) BigEndian
                   (take (XFS_sizeof (xfs_layout env)) (drop (nat (sint (lbs * off))) (image d)))
      in XFSSuperBlock_Is xfs \<and>
         info = \<lparr>FSType = FSTypeXFS,
                 TotalCapacity = ucast (TotalBlocks xfs) * ucast (BlockSize xfs),
                 FreeCapacity = ucast (XFSSuperBlock.FreeBlocks xfs) * ucast (BlockSize xfs),
                 FSBlockSize = ucast (BlockSize xfs),
                 Mounts = []\<rparr>"
    by blast
  define xfs where "xfs = decode_XFS (xfs_layout env) BigEndian
      (take (XFS_sizeof (xfs_layout env)) (drop (nat (sint (lbs * off))) (image d)))"
  from r have valid: "XFSSuperBlock_Is xfs"
    and bs: "FSBlockSize info = ucast (BlockSize xfs)"
    and tc: "TotalCapacity info = ucast (TotalBlocks xfs) * ucast (BlockSize xfs)"
    and fc: "FreeCapacity info = ucast (XFSSuperBlock.FreeBlocks xfs) * ucast (BlockSize xfs)"
    by (simp_all add: Let_def xfs_def)
  have 1: "unat (FSBlockSize info) = unat (BlockSize xfs)"
    by (simp only: bs unat_ucast_32_64)
  have 2: "unat (TotalCapacity info) = (unat (TotalBlocks xfs) * unat (BlockSize xfs)) mod 2 ^ 64"
    unfolding tc by (rule unat_mult_64_32)
  have 3: "unat (FreeCapacity info)
      = (unat (XFSSuperBlock.FreeBlocks xfs) * unat (BlockSize xfs)) mod 2 ^ 64"
    unfolding fc by (rule unat_mult_64_32)
  have 4: "unat (TotalBlocks xfs) * unat (BlockSize xfs) < 2 ^ 64 \<longrightarrow>
      unat (TotalCapacity info) = unat (TotalBlocks xfs) * unat (BlockSize xfs)"
    unfolding 2 by simp
  have 5: "unat (XFSSuperBlock.FreeBlocks xfs) * unat (BlockSize xfs) < 2 ^ 64 \<longrightarrow>
      unat (FreeCapacity info) = unat (XFSSuperBlock.FreeBlocks xfs) * unat (BlockSize xfs)"
    unfolding 3 by simp
  show "\<exists>d. devices env (getBlockFile env devName) = Some d \<and>
        (let xfs = decode_XFS (xfs_layout env) BigEndian
                     (take (XFS_sizeof (xfs_layout env))
                        (drop (nat (sint (lbs * off))) (image d)))
         in XFSSuperBlock_Is xfs
            \<and> unat (FSBlockSize info) = unat (BlockSize xfs)
            \<and> unat (TotalCapacity info)
                = (unat (TotalBlocks xfs) * unat (BlockSize xfs)) mod 2 ^ 64
            \<and> unat (FreeCapacity info)
                = (unat (XFSSuperBlock.FreeBlocks xfs) * unat (BlockSize xfs)) mod 2 ^ 64
            \<and> (unat (TotalBlocks xfs) * unat (BlockSize xfs) < 2 ^ 64 \<longrightarrow>
                 unat (TotalCapacity info) = unat (TotalBlocks xfs) * unat (BlockSize xfs))
            \<and> (unat (XFSSuperBlock.FreeBlocks xfs) * unat (BlockSize xfs) < 2 ^ 64 \<longrightarrow>
                 unat (FreeCapacity info)
                   = unat (XFSSuperBlock.FreeBlocks xfs) * unat (BlockSize xfs)))"
    using d valid 1 2 3 4 5 unfolding Let_def xfs_def by blast
qed

lemma example_sdb_superblock:
  "decode_XFS (xfs_layout example) BigEndian
     (take (XFS_sizeof (xfs_layout example)) (xfs_image [0, 0, 0, 0, 0, 0, 0x03, 0xE8]))
   = \<lparr>MagicNumber = 0x58465342, BlockSize = 4096, TotalBlocks = 1000, FreeBlocks = 250\<rparr>"
  by (simp add: decode_XFS_def uint_at_def Uint_def example_def example_xfs_layout_def
      xfs_image_def)

theorem XFS_capacity_witness:
  "fst (fst (ProbeFSXFS example ''sdb'' 512 0))
     = Some \<lparr>FSType = FSTypeXFS, TotalCapacity = 4096000, FreeCapacity = 1024000,
             FSBlockSize = 4096, Mounts = []\<rparr>
   \<and> devices example (getBlockFile example ''sdb'')
     = Some (disk (xfs_image [0, 0, 0, 0, 0, 0, 0x03, 0xE8]))
   \<and> decode_XFS (xfs_layout example) BigEndian
        (take (XFS_sizeof (xfs_layout example))
           (drop (nat (sint (512 * 0 :: 64 word)))
              (image (disk (xfs_image [0, 0, 0, 0, 0, 0, 0x03, 0xE8])))))
     = \<lparr>MagicNumber = 0x58465342, BlockSize = 4096, TotalBlocks = 1000, FreeBlocks = 250\<rparr>
   \<and> (1000 :: nat) * 4096 < 2 ^ 64
   \<and> unat (TotalCapacity \<lparr>FSType = FSTypeXFS, TotalCapacity = 4096000, FreeCapacity = 1024000,
             FSBlockSize = 4096, Mounts = []\<rparr>) = 1000 * 4096
   \<and> unat (FreeCapacity \<lparr>FSType = FSTypeXFS, TotalCapacity = 4096000, FreeCapacity = 1024000,
             FSBlockSize = 4096, Mounts = []\<rparr>) = 250 * 4096"
proof -
  have found: "fst (fst (ProbeFSXFS example ''sdb'' 512 0))
     = Some \<lparr>FSType = FSTypeXFS, TotalCapacity = 4096000, FreeCapacity = 1024000,
             FSBlockSize = 4096, Mounts = []\<rparr>"
    by (simp add: example_sdb_XFS)
  have sdb: "devices example (getBlockFile example ''sdb'')
     = Some (disk (xfs_image [0, 0, 0, 0, 0, 0, 0x03, 0xE8]))"
    by (simp add: example_def example_devices_def)
  have sb: "decode_XFS (xfs_layout example) BigEndian
        (take (XFS_sizeof (xfs_layout example))
           (drop (nat (sint (512 * 0 :: 64 word)))
              (image (disk (xfs_image [0, 0, 0, 0, 0, 0, 0x03, 0xE8])))))
     = \<lparr>MagicNumber = 0x58465342, BlockSize = 4096, TotalBlocks = 1000, FreeBlocks = 250\<rparr>"
    by (simp add: disk_def example_sdb_superblock)
  from XFS_capacity [of example "''sdb''" 512 0] found sdb
  have "unat (TotalCapacity \<lparr>FSType = FSTypeXFS, TotalCapacity = 4096000,
        FreeCapacity = 1024000, FSBlockSize = 4096, Mounts = []\<rparr>) = 1000 * 4096
      \<and> unat (FreeCapacity \<lparr>FSType = FSTypeXFS, TotalCapacity = 4096000,
        FreeCapacity = 1024000, FSBlockSize = 4096, Mounts = []\<rparr>) = 250 * 4096"
    by (simp add: Let_def sb)
  with found sdb sb show ?thesis by simp
qed

text \<open>
  The claim as stated fails where a product does not fit in 64 bits. The device
  \<open>sdg\<close> has a superblock with the XFS magic, the block size 4096 and
  \<open>2 ^ 52\<close> blocks: the product is \<open>2 ^ 64\<close>, and the total capacity reported is 0.
\<close>

theorem XFS_capacity_counterexample:
  "decode_XFS (xfs_layout example) BigEndian
     (take (XFS_sizeof (xfs_layout example))
        (drop (nat (sint (512 * 0 :: 64 word))) (xfs_image [0, 0x10, 0, 0, 0, 0, 0, 0])))
     = \<lparr>MagicNumber = 0x58465342, BlockSize = 4096, TotalBlocks = 4503599627370496,
        FreeBlocks = 250\<rparr>
   \<and> fst (ProbeFSXFS example ''sdg'' 512 0)
     = (Some \<lparr>FSType = FSTypeXFS, TotalCapacity = 0, FreeCapacity = 1024000,
              FSBlockSize = 4096, Mounts = []\<rparr>, None)
   \<and> unat (0 :: 64 word) \<noteq> 4503599627370496 * 4096"
  by (simp add: probe_defs example_defs)

subsection \<open>C6: a truncated device is a device-access error\<close>

text \<open>
  Claim C6. When the bytes of a device from the probed position on are fewer than the
  size of the superblock structure, each decoder returns a nil result and an error of
  the device access, never \<open>ErrNotEXT4\<close> or \<open>ErrNotXFS\<close>. On a device that opens,
  that error is the EINVAL of the seek when the seek refuses the position (a negative
  one, or one beyond the limit of the file), and otherwise, when the read does not fail
  for another reason, \<open>io.EOF\<close> or \<open>io.ErrUnexpectedEOF\<close>. \<open>ProbeFS\<close> returns
  the error: from the EXT4 decoder without a call of the XFS decoder, from the XFS
  decoder when the EXT4 decoder reported "not this format".
\<close>

theorem truncated_device_is_hard_error:
  "(\<forall>d. devices env (getBlockFile env devName) = Some d
        \<and> length (drop (nat (sint (lbs * off))) (image d)) < EXT4_sizeof (ext4_layout env) \<longrightarrow>
      (\<exists>x. fst (ProbeFSEXT4 env devName lbs off) = (None, Some (OSError x))
           \<and> fst (ProbeFS env devName lbs off) = (None, Some (OSError x))
           \<and> (open_fault d = None \<and> read_fault d = None \<and> 0 \<le> sint (lbs * off)
                \<and> nat (sint (lbs * off)) \<le> seek_limit d \<longrightarrow>
                  x = EOF \<or> x = ErrUnexpectedEOF)
           \<and> (open_fault d = None
                \<and> (sint (lbs * off) < 0 \<or> seek_limit d < nat (sint (lbs * off))) \<longrightarrow>
                  x = PathError ''seek'' (getBlockFile env devName) EINVAL))
      \<and> Call_ProbeFSXFS \<notin> set (snd (ProbeFS env devName lbs off)))
   \<and> (\<forall>d. devices env (getBlockFile env devName) = Some d
        \<and> length (drop (nat (sint (lbs * off))) (image d)) < XFS_sizeof (xfs_layout env) \<longrightarrow>
      (\<exists>x. fst (ProbeFSXFS env devName lbs off) = (None, Some (OSError x))
           \<and> (snd (fst (ProbeFSEXT4 env devName lbs off)) = Some ErrNotEXT4 \<longrightarrow>
                fst (ProbeFS env devName lbs off) = (None, Some (OSError x)))
           \<and> (open_fault d = None \<and> read_fault d = None \<and> 0 \<le> sint (lbs * off)
                \<and> nat (sint (lbs * off)) \<le> seek_limit d \<longrightarrow>
                  x = EOF \<or> x = ErrUnexpectedEOF)
           \<and> (open_fault d = None
                \<and> (sint (lbs * off) < 0 \<or> seek_limit d < nat (sint (lbs * off))) \<longrightarrow>
                  x = PathError ''seek'' (getBlockFile env devName) EINVAL)))
   \<and> (\<forall>x. OSError x \<noteq> ErrNotEXT4 \<and> OSError x \<noteq> ErrNotXFS)"
proof (intro conjI allI impI)
  fix d
  assume a: "devices env (getBlockFile env devName) = Some d
        \<and> length (drop (nat (sint (lbs * off))) (image d)) < EXT4_sizeof (ext4_layout env)"
  then obtain x calls where ext4: "ProbeFSEXT4 env devName lbs off = ((None, Some (OSError x)), calls)"
    and x: "open_fault d = None \<and> read_fault d = None \<and> 0 \<le> sint (lbs * off)
              \<and> nat (sint (lbs * off)) \<le> seek_limit d \<longrightarrow>
              x = EOF \<or> x = ErrUnexpectedEOF"
    and y: "open_fault d = None
              \<and> (sint (lbs * off) < 0 \<or> seek_limit d < nat (sint (lbs * off))) \<longrightarrow>
              x = PathError ''seek'' (getBlockFile env devName) EINVAL"
    using ProbeFSEXT4_truncated [of env devName d lbs off] by blast
  have all: "ProbeFS env devName lbs off = ((None, Some (OSError x)), calls)"
    using ext4 by (rule ProbeFS_EXT4_failed)
  show "\<exists>x. fst (ProbeFSEXT4 env devName lbs off) = (None, Some (OSError x))
           \<and> fst (ProbeFS env devName lbs off) = (None, Some (OSError x))
           \<and> (open_fault d = None \<and> read_fault d = None \<and> 0 \<le> sint (lbs * off)
                \<and> nat (sint (lbs * off)) \<le> seek_limit d \<longrightarrow>
                  x = EOF \<or> x = ErrUnexpectedEOF)
           \<and> (open_fault d = None
                \<and> (sint (lbs * off) < 0 \<or> seek_limit d < nat (sint (lbs * off))) \<longrightarrow>
                  x = PathError ''seek'' (getBlockFile env devName) EINVAL)"
    using ext4 all x y by (intro exI [of _ x]) simp
  show "Call_ProbeFSXFS \<notin> set (snd (ProbeFS env devName lbs off))"
    using ProbeFSEXT4_calls [of env devName lbs off] by (auto simp: all ext4)
next
  fix d
  assume a: "devices env (getBlockFile env devName) = Some d
        \<and> length (drop (nat (sint (lbs * off))) (image d)) < XFS_sizeof (xfs_layout env)"
  then obtain x calls where xfs: "ProbeFSXFS env devName lbs off = ((None, Some (OSError x)), calls)"
    and x: "open_fault d = None \<and> read_fault d = None \<and> 0 \<le> sint (lbs * off)
              \<and> nat (sint (lbs * off)) \<le> seek_limit d \<longrightarrow>
              x = EOF \<or> x = ErrUnexpectedEOF"
    and y: "open_fault d = None
              \<and> (sint (lbs * off) < 0 \<or> seek_limit d < nat (sint (lbs * off))) \<longrightarrow>
              x = PathError ''seek'' (getBlockFile env devName) EINVAL"
    using ProbeFSXFS_truncated [of env devName d lbs off] by blast
  have all: "fst (ProbeFS env devName lbs off) = (None, Some (OSError x))"
    if "snd (fst (ProbeFSEXT4 env devName lbs off)) = Some ErrNotEXT4"
  proof -
    from that obtain c1 where "ProbeFSEXT4 env devName lbs off = ((None, Some ErrNotEXT4), c1)"
      by (cases rule: ProbeFSEXT4_cases [of env devName lbs off]) auto
    from ProbeFS_XFS_failed [OF this xfs] show ?thesis by simp
  qed
  show "\<exists>x. fst (ProbeFSXFS env devName lbs off) = (None, Some (OSError x))
           \<and> (snd (fst (ProbeFSEXT4 env devName lbs off)) = Some ErrNotEXT4 \<longrightarrow>
                fst (ProbeFS env devName lbs off) = (None, Some (OSError x)))
           \<and> (open_fault d = None \<and> read_fault d = None \<and> 0 \<le> sint (lbs * off)
                \<and> nat (sint (lbs * off)) \<le> seek_limit d \<longrightarrow>
                  x = EOF \<or> x = ErrUnexpectedEOF)
           \<and> (open_fault d = None
                \<and> (sint (lbs * off) < 0 \<or> seek_limit d < nat (sint (lbs * off))) \<longrightarrow>
                  x = PathError ''seek'' (getBlockFile env devName) EINVAL)"
    using xfs all x y by (intro exI [of _ x]) simp
qed simp_all

text \<open>
  The device \<open>sde\<close> has 2 bytes: both decoders read at position 0 and find too few.
  The device \<open>sda\<close> has 64 bytes: at the position 64, its end, the read finds none;
  the position 512 is past its end and the seek refuses it.
\<close>

lemma example_sde_EXT4:
  "ProbeFSEXT4 example ''sde'' 512 0 =
     ((None, Some (OSError ErrUnexpectedEOF)),
      [Call_ProbeFSEXT4, Call_OpenFile ''/dev/sde'', Call_Seek 0,
       Call_Read LittleEndian 0 64, Call_Close])"
  by (simp add: probe_defs example_defs)

lemma example_sde_XFS:
  "ProbeFSXFS example ''sde'' 512 0 =
     ((None, Some (OSError ErrUnexpectedEOF)),
      [Call_ProbeFSXFS, Call_OpenFile ''/dev/sde'', Call_Seek 0,
       Call_Read BigEndian 0 152, Call_Close])"
  by (simp add: probe_defs example_defs)

lemma example_sda_at_end_EXT4:
  "ProbeFSEXT4 example ''sda'' 64 1 =
     ((None, Some (OSError EOF)),
      [Call_ProbeFSEXT4, Call_OpenFile ''/dev/sda'', Call_Seek 64,
       Call_Read LittleEndian 64 64, Call_Close])"
  by (simp add: probe_defs example_defs)

lemma example_sda_past_end_EXT4:
  "ProbeFSEXT4 example ''sda'' 512 1 =
     ((None, Some (OSError (PathError ''seek'' ''/dev/sda'' EINVAL))),
      [Call_ProbeFSEXT4, Call_OpenFile ''/dev/sda'', Call_Seek 512, Call_Close])"
  by (simp add: probe_defs example_defs)

theorem truncated_device_is_hard_error_witness:
  "devices example (getBlockFile example ''sde'') = Some (disk [0x53, 0xEF])
   \<and> length (drop (nat (sint (512 * 0 :: 64 word))) (image (disk [0x53, 0xEF])))
       < EXT4_sizeof (ext4_layout example)
   \<and> length (drop (nat (sint (512 * 0 :: 64 word))) (image (disk [0x53, 0xEF])))
       < XFS_sizeof (xfs_layout example)
   \<and> nat (sint (512 * 0 :: 64 word)) \<le> seek_limit (disk [0x53, 0xEF])
   \<and> fst (ProbeFSEXT4 example ''sde'' 512 0) = (None, Some (OSError ErrUnexpectedEOF))
   \<and> fst (ProbeFSXFS example ''sde'' 512 0) = (None, Some (OSError ErrUnexpectedEOF))
   \<and> fst (ProbeFS example ''sde'' 512 0) = (None, Some (OSError ErrUnexpectedEOF))
   \<and> Call_ProbeFSXFS \<notin> set (snd (ProbeFS example ''sde'' 512 0))
   \<and> devices example (getBlockFile example ''sda'') = Some (disk (ext4_image 2))
   \<and> length (drop (nat (sint (64 * 1 :: 64 word))) (image (disk (ext4_image 2))))
       < EXT4_sizeof (ext4_layout example)
   \<and> nat (sint (64 * 1 :: 64 word)) \<le> seek_limit (disk (ext4_image 2))
   \<and> fst (ProbeFS example ''sda'' 64 1) = (None, Some (OSError EOF))
   \<and> length (drop (nat (sint (512 * 1 :: 64 word))) (image (disk (ext4_image 2))))
       < EXT4_sizeof (ext4_layout example)
   \<and> seek_limit (disk (ext4_image 2)) < nat (sint (512 * 1 :: 64 word))
   \<and> fst (ProbeFS example ''sda'' 512 1)
       = (None, Some (OSError (PathError ''seek'' ''/dev/sda'' EINVAL)))"
proof -
  have sde: "devices example (getBlockFile example ''sde'') = Some (disk [0x53, 0xEF])"
    by (simp add: example_defs)
  have sda: "devices example (getBlockFile example ''sda'') = Some (disk (ext4_image 2))"
    by (simp add: example_defs)
  have short: "length (drop (nat (sint (512 * 0 :: 64 word))) (image (disk [0x53, 0xEF])))
       < EXT4_sizeof (ext4_layout example)"
    "length (drop (nat (sint (512 * 0 :: 64 word))) (image (disk [0x53, 0xEF])))
       < XFS_sizeof (xfs_layout example)"
    "length (drop (nat (sint (64 * 1 :: 64 word))) (image (disk (ext4_image 2))))
       < EXT4_sizeof (ext4_layout example)"
    "length (drop (nat (sint (512 * 1 :: 64 word))) (image (disk (ext4_image 2))))
       < EXT4_sizeof (ext4_layout example)"
    by (simp_all add: example_defs)
  have limits: "nat (sint (512 * 0 :: 64 word)) \<le> seek_limit (disk [0x53, 0xEF])"
    "nat (sint (64 * 1 :: 64 word)) \<le> seek_limit (disk (ext4_image 2))"
    "seek_limit (disk (ext4_image 2)) < nat (sint (512 * 1 :: 64 word))"
    by (simp_all add: seek_limit_def example_defs)
  show ?thesis
    using truncated_device_is_hard_error [of example "''sde''" 512 0]
      truncated_device_is_hard_error [of example "''sda''" 64 1]
      truncated_device_is_hard_error [of example "''sda''" 512 1]
      sde sda short limits
    by (simp add: example_sde_EXT4 example_sde_XFS example_sda_at_end_EXT4
        example_sda_past_end_EXT4)
qed

subsection \<open>C7: the seek offset\<close>

text \<open>
  Claim C7, as amended. On a device that opens, each decoder calls \<open>Seek\<close> once,
  before any read and relative to the position 0 of the file just opened, with the
  product \<open>logicalBlockSize * offsetBlocks\<close> computed in 64 bits and read as a
  signed 64-bit number. When the product of the two numbers is below \<open>2 ^ 63\<close>, that
  offset is exactly the product. If the seek accepts that position, the one read of the
  superblock structure follows at that position; if the seek refuses it (it is beyond
  the limit of the file: past the end of a block device), the decoder returns the
  EINVAL of the seek and reads nothing.
\<close>

theorem decoders_seek_to_product:
  "\<forall>d. devices env (getBlockFile env devName) = Some d \<and> open_fault d = None \<longrightarrow>
     (\<exists>rest. snd (ProbeFSEXT4 env devName lbs off)
               = Call_ProbeFSEXT4 # Call_OpenFile (getBlockFile env devName)
                 # Call_Seek (sint (lbs * off)) # rest
        \<and> (\<forall>c \<in> set rest. \<forall>k. c \<noteq> Call_Seek k)
        \<and> (unat lbs * unat off < 2 ^ 63 \<longrightarrow>
             sint (lbs * off) = int (unat lbs * unat off)
             \<and> (unat lbs * unat off \<le> seek_limit d \<longrightarrow>
                  rest = [Call_Read LittleEndian (unat lbs * unat off)
                            (EXT4_sizeof (ext4_layout env)), Call_Close])
             \<and> (seek_limit d < unat lbs * unat off \<longrightarrow>
                  rest = [Call_Close]
                  \<and> fst (ProbeFSEXT4 env devName lbs off)
                      = (None, Some (OSError
                           (PathError ''seek'' (getBlockFile env devName) EINVAL))))))
     \<and> (\<exists>rest. snd (ProbeFSXFS env devName lbs off)
               = Call_ProbeFSXFS # Call_OpenFile (getBlockFile env devName)
                 # Call_Seek (sint (lbs * off)) # rest
        \<and> (\<forall>c \<in> set rest. \<forall>k. c \<noteq> Call_Seek k)
        \<and> (unat lbs * unat off < 2 ^ 63 \<longrightarrow>
             sint (lbs * off) = int (unat lbs * unat off)
             \<and> (unat lbs * unat off \<le> seek_limit d \<longrightarrow>
                  rest = [Call_Read BigEndian (unat lbs * unat off)
                            (XFS_sizeof (xfs_layout env)), Call_Close])
             \<and> (seek_limit d < unat lbs * unat off \<longrightarrow>
                  rest = [Call_Close]
                  \<and> fst (ProbeFSXFS env devName lbs off)
                      = (None, Some (OSError
                           (PathError ''seek'' (getBlockFile env devName) EINVAL))))))"
proof (intro allI impI)
  fix d
  assume a: "devices env (getBlockFile env devName) = Some d \<and> open_fault d = None"
  define refused where
    "refused \<longleftrightarrow> sint (lbs * off) < 0 \<or> int (seek_limit d) < sint (lbs * off)"
  define rest4 where "rest4 =
    (if refused then [Call_Close]
     else [Call_Read LittleEndian (nat (sint (lbs * off))) (EXT4_sizeof (ext4_layout env)),
           Call_Close])"
  define restx where "restx =
    (if refused then [Call_Close]
     else [Call_Read BigEndian (nat (sint (lbs * off))) (XFS_sizeof (xfs_layout env)),
           Call_Close])"
  have calls4: "snd (ProbeFSEXT4 env devName lbs off)
      = Call_ProbeFSEXT4 # Call_OpenFile (getBlockFile env devName)
        # Call_Seek (sint (lbs * off)) # rest4"
    unfolding rest4_def refused_def
    using a by (simp add: ProbeFSEXT4_opened_calls [of env devName d lbs off])
  have callsx: "snd (ProbeFSXFS env devName lbs off)
      = Call_ProbeFSXFS # Call_OpenFile (getBlockFile env devName)
        # Call_Seek (sint (lbs * off)) # restx"
    unfolding restx_def refused_def
    using a by (simp add: ProbeFSXFS_opened_calls [of env devName d lbs off])
  have one4: "\<forall>c \<in> set rest4. \<forall>k. c \<noteq> Call_Seek k"
    unfolding rest4_def by simp
  have onex: "\<forall>c \<in> set restx. \<forall>k. c \<noteq> Call_Seek k"
    unfolding restx_def by simp
  have small: "sint (lbs * off) = int (unat lbs * unat off)
      \<and> nat (sint (lbs * off)) = unat lbs * unat off
      \<and> (refused \<longleftrightarrow> seek_limit d < unat lbs * unat off)"
    if lt: "unat lbs * unat off < 2 ^ 63"
  proof -
    have e: "sint (lbs * off) = int (unat lbs * unat off)"
      by (rule sint_mult_64 [OF lt])
    have n: "nat (sint (lbs * off)) = unat lbs * unat off"
      by (simp only: e nat_int)
    have r: "refused \<longleftrightarrow> seek_limit d < unat lbs * unat off"
      unfolding refused_def by (simp only: e of_nat_less_0_iff of_nat_less_iff simp_thms)
    from e n r show ?thesis by blast
  qed
  have small4: "unat lbs * unat off < 2 ^ 63 \<longrightarrow>
      sint (lbs * off) = int (unat lbs * unat off)
      \<and> (unat lbs * unat off \<le> seek_limit d \<longrightarrow>
           rest4 = [Call_Read LittleEndian (unat lbs * unat off)
                     (EXT4_sizeof (ext4_layout env)), Call_Close])
      \<and> (seek_limit d < unat lbs * unat off \<longrightarrow>
           rest4 = [Call_Close]
           \<and> fst (ProbeFSEXT4 env devName lbs off)
               = (None, Some (OSError (PathError ''seek'' (getBlockFile env devName) EINVAL))))"
  proof (intro impI conjI)
    assume lt: "unat lbs * unat off < 2 ^ 63"
    show "sint (lbs * off) = int (unat lbs * unat off)"
      using small [OF lt] by blast
    have n: "nat (sint (lbs * off)) = unat lbs * unat off"
      and r: "refused \<longleftrightarrow> seek_limit d < unat lbs * unat off"
      using small [OF lt] by blast+
    show "rest4 = [Call_Read LittleEndian (unat lbs * unat off)
                     (EXT4_sizeof (ext4_layout env)), Call_Close]"
      if le: "unat lbs * unat off \<le> seek_limit d"
    proof -
      from le have "\<not> refused" unfolding r by simp
      then show ?thesis unfolding rest4_def by (simp only: n if_False)
    qed
    show "rest4 = [Call_Close]" if gt: "seek_limit d < unat lbs * unat off"
    proof -
      from gt have "refused" unfolding r .
      then show ?thesis unfolding rest4_def by (simp only: if_True)
    qed
    show "fst (ProbeFSEXT4 env devName lbs off)
        = (None, Some (OSError (PathError ''seek'' (getBlockFile env devName) EINVAL)))"
      if "seek_limit d < unat lbs * unat off"
    proof (rule ProbeFSEXT4_seek_refused)
      show "devices env (getBlockFile env devName) = Some d" using a by blast
      show "open_fault d = None" using a by blast
      show "sint (lbs * off) < 0 \<or> int (seek_limit d) < sint (lbs * off)"
        using small [OF lt] that unfolding refused_def by blast
    qed
  qed
  have smallx: "unat lbs * unat off < 2 ^ 63 \<longrightarrow>
      sint (lbs * off) = int (unat lbs * unat off)
      \<and> (unat lbs * unat off \<le> seek_limit d \<longrightarrow>
           restx = [Call_Read BigEndian (unat lbs * unat off)
                     (XFS_sizeof (xfs_layout env)), Call_Close])
      \<and> (seek_limit d < unat lbs * unat off \<longrightarrow>
           restx = [Call_Close]
           \<and> fst (ProbeFSXFS env devName lbs off)
               = (None, Some (OSError (PathError ''seek'' (getBlockFile env devName) EINVAL))))"
  proof (intro impI conjI)
    assume lt: "unat lbs * unat off < 2 ^ 63"
    show "sint (lbs * off) = int (unat lbs * unat off)"
      using small [OF lt] by blast
    have n: "nat (sint (lbs * off)) = unat lbs * unat off"
      and r: "refused \<longleftrightarrow> seek_limit d < unat lbs * unat off"
      using small [OF lt] by blast+
    show "restx = [Call_Read BigEndian (unat lbs * unat off)
                     (XFS_sizeof (xfs_layout env)), Call_Close]"
      if le: "unat lbs * unat off \<le> seek_limit d"
    proof -
      from le have "\<not> refused" unfolding r by simp
      then show ?thesis unfolding restx_def by (simp only: n if_False)
    qed
    show "restx = [Call_Close]" if gt: "seek_limit d < unat lbs * unat off"
    proof -
      from gt have "refused" unfolding r .
      then show ?thesis unfolding restx_def by (simp only: if_True)
    qed
    show "fst (ProbeFSXFS env devName lbs off)
        = (None, Some (OSError (PathError ''seek'' (getBlockFile env devName) EINVAL)))"
      if "seek_limit d < unat lbs * unat off"
    proof (rule ProbeFSXFS_seek_refused)
      show "devices env (getBlockFile env devName) = Some d" using a by blast
      show "open_fault d = None" using a by blast
      show "sint (lbs * off) < 0 \<or> int (seek_limit d) < sint (lbs * off)"
        using small [OF lt] that unfolding refused_def by blast
    qed
  qed
  have ext4: "\<exists>rest. snd (ProbeFSEXT4 env devName lbs off)
               = Call_ProbeFSEXT4 # Call_OpenFile (getBlockFile env devName)
                 # Call_Seek (sint (lbs * off)) # rest
        \<and> (\<forall>c \<in> set rest. \<forall>k. c \<noteq> Call_Seek k)
        \<and> (unat lbs * unat off < 2 ^ 63 \<longrightarrow>
             sint (lbs * off) = int (unat lbs * unat off)
             \<and> (unat lbs * unat off \<le> seek_limit d \<longrightarrow>
                  rest = [Call_Read LittleEndian (unat lbs * unat off)
                            (EXT4_sizeof (ext4_layout env)), Call_Close])
             \<and> (seek_limit d < unat lbs * unat off \<longrightarrow>
                  rest = [Call_Close]
                  \<and> fst (ProbeFSEXT4 env devName lbs off)
                      = (None, Some (OSError
                           (PathError ''seek'' (getBlockFile env devName) EINVAL)))))"
    using calls4 one4 small4 by (intro exI [of _ rest4] conjI)
  have xfs: "\<exists>rest. snd (ProbeFSXFS env devName lbs off)
               = Call_ProbeFSXFS # Call_OpenFile (getBlockFile env devName)
                 # Call_Seek (sint (lbs * off)) # rest
        \<and> (\<forall>c \<in> set rest. \<forall>k. c \<noteq> Call_Seek k)
        \<and> (unat lbs * unat off < 2 ^ 63 \<longrightarrow>
             sint (lbs * off) = int (unat lbs * unat off)
             \<and> (unat lbs * unat off \<le> seek_limit d \<longrightarrow>
                  rest = [Call_Read BigEndian (unat lbs * unat off)
                            (XFS_sizeof (xfs_layout env)), Call_Close])
             \<and> (seek_limit d < unat lbs * unat off \<longrightarrow>
                  rest = [Call_Close]
                  \<and> fst (ProbeFSXFS env devName lbs off)
                      = (None, Some (OSError
                           (PathError ''seek'' (getBlockFile env devName) EINVAL)))))"
    using callsx onex smallx by (intro exI [of _ restx] conjI)
  from ext4 xfs show "(\<exists>rest. snd (ProbeFSEXT4 env devName lbs off)
               = Call_ProbeFSEXT4 # Call_OpenFile (getBlockFile env devName)
                 # Call_Seek (sint (lbs * off)) # rest
        \<and> (\<forall>c \<in> set rest. \<forall>k. c \<noteq> Call_Seek k)
        \<and> (unat lbs * unat off < 2 ^ 63 \<longrightarrow>
             sint (lbs * off) = int (unat lbs * unat off)
             \<and> (unat lbs * unat off \<le> seek_limit d \<longrightarrow>
                  rest = [Call_Read LittleEndian (unat lbs * unat off)
                            (EXT4_sizeof (ext4_layout env)), Call_Close])
             \<and> (seek_limit d < unat lbs * unat off \<longrightarrow>
                  rest = [Call_Close]
                  \<and> fst (ProbeFSEXT4 env devName lbs off)
                      = (None, Some (OSError
                           (PathError ''seek'' (getBlockFile env devName) EINVAL))))))
     \<and> (\<exists>rest. snd (ProbeFSXFS env devName lbs off)
               = Call_ProbeFSXFS # Call_OpenFile (getBlockFile env devName)
                 # Call_Seek (sint (lbs * off)) # rest
        \<and> (\<forall>c \<in> set rest. \<forall>k. c \<noteq> Call_Seek k)
        \<and> (unat lbs * unat off < 2 ^ 63 \<longrightarrow>
             sint (lbs * off) = int (unat lbs * unat off)
             \<and> (unat lbs * unat off \<le> seek_limit d \<longrightarrow>
                  rest = [Call_Read BigEndian (unat lbs * unat off)
                            (XFS_sizeof (xfs_layout env)), Call_Close])
             \<and> (seek_limit d < unat lbs * unat off \<longrightarrow>
                  rest = [Call_Close]
                  \<and> fst (ProbeFSXFS env devName lbs off)
                      = (None, Some (OSError
                           (PathError ''seek'' (getBlockFile env devName) EINVAL))))))"
    by (rule conjI)
qed

text \<open>
  The device \<open>sdj\<close> has 576 bytes, the EXT4 superblock after one block of 512: with
  the logical block size 512 and the offset of 1 block the decoders seek 512 bytes
  forward and read there. On the 576 bytes the offset of 2 blocks is past the end: the
  decoders seek 1024 bytes forward, the seek is refused and nothing is read.
\<close>

lemma example_sdj_EXT4:
  "ProbeFSEXT4 example ''sdj'' 512 1 =
     ((Some \<lparr>FSType = FSTypeEXT4, TotalCapacity = 4096000, FreeCapacity = 1638400,
             FSBlockSize = 4096, Mounts = []\<rparr>, None),
      [Call_ProbeFSEXT4, Call_OpenFile ''/dev/sdj'', Call_Seek 512,
       Call_Read LittleEndian 512 64, Call_Close])"
  by (simp add: probe_defs example_defs)

theorem decoders_seek_to_product_witness:
  "devices example (getBlockFile example ''sdj'') = Some (disk (replicate 512 0 @ ext4_image 2))
   \<and> open_fault (disk (replicate 512 0 @ ext4_image 2)) = None
   \<and> seek_limit (disk (replicate 512 0 @ ext4_image 2)) = 576
   \<and> unat (512 :: 64 word) * unat (1 :: 64 word) < 2 ^ 63
   \<and> snd (ProbeFSEXT4 example ''sdj'' 512 1)
       = [Call_ProbeFSEXT4, Call_OpenFile ''/dev/sdj'', Call_Seek 512,
          Call_Read LittleEndian 512 64, Call_Close]
   \<and> snd (ProbeFSXFS example ''sdj'' 512 1)
       = [Call_ProbeFSXFS, Call_OpenFile ''/dev/sdj'', Call_Seek 512,
          Call_Read BigEndian 512 152, Call_Close]
   \<and> unat (512 :: 64 word) * unat (2 :: 64 word) < 2 ^ 63
   \<and> ProbeFSEXT4 example ''sdj'' 512 2
       = ((None, Some (OSError (PathError ''seek'' ''/dev/sdj'' EINVAL))),
          [Call_ProbeFSEXT4, Call_OpenFile ''/dev/sdj'', Call_Seek 1024, Call_Close])
   \<and> ProbeFSXFS example ''sdj'' 512 2
       = ((None, Some (OSError (PathError ''seek'' ''/dev/sdj'' EINVAL))),
          [Call_ProbeFSXFS, Call_OpenFile ''/dev/sdj'', Call_Seek 1024, Call_Close])"
proof -
  have sdj: "devices example (getBlockFile example ''sdj'')
      = Some (disk (replicate 512 0 @ ext4_image 2))"
    "open_fault (disk (replicate 512 0 @ ext4_image 2)) = None"
    "seek_limit (disk (replicate 512 0 @ ext4_image 2)) = 576"
    by (simp_all add: example_def example_devices_def disk_def seek_limit_def ext4_image_def)
  have path: "getBlockFile example ''sdj'' = ''/dev/sdj''"
    "EXT4_sizeof (ext4_layout example) = 64" "XFS_sizeof (xfs_layout example) = 152"
    by (simp_all add: example_def example_ext4_layout_def example_xfs_layout_def)
  from decoders_seek_to_product [of example "''sdj''" 512 1] sdj
  have one: "(\<exists>rest. snd (ProbeFSEXT4 example ''sdj'' 512 1)
               = Call_ProbeFSEXT4 # Call_OpenFile ''/dev/sdj'' # Call_Seek 512 # rest
        \<and> rest = [Call_Read LittleEndian 512 64, Call_Close])
     \<and> (\<exists>rest. snd (ProbeFSXFS example ''sdj'' 512 1)
               = Call_ProbeFSXFS # Call_OpenFile ''/dev/sdj'' # Call_Seek 512 # rest
        \<and> rest = [Call_Read BigEndian 512 152, Call_Close])"
    by (simp add: path)
  from decoders_seek_to_product [of example "''sdj''" 512 2] sdj
  have two: "(\<exists>rest. snd (ProbeFSEXT4 example ''sdj'' 512 2)
               = Call_ProbeFSEXT4 # Call_OpenFile ''/dev/sdj'' # Call_Seek 1024 # rest
        \<and> rest = [Call_Close]
        \<and> fst (ProbeFSEXT4 example ''sdj'' 512 2)
             = (None, Some (OSError (PathError ''seek'' ''/dev/sdj'' EINVAL))))
     \<and> (\<exists>rest. snd (ProbeFSXFS example ''sdj'' 512 2)
               = Call_ProbeFSXFS # Call_OpenFile ''/dev/sdj'' # Call_Seek 1024 # rest
        \<and> rest = [Call_Close]
        \<and> fst (ProbeFSXFS example ''sdj'' 512 2)
             = (None, Some (OSError (PathError ''seek'' ''/dev/sdj'' EINVAL))))"
    by (simp add: path)
  from one two sdj show ?thesis
    by (simp add: prod_eq_iff)
qed

text \<open>
  The claim as stated fails where the product does not fit. With the logical block
  size \<open>2 ^ 32\<close> and the offset of \<open>2 ^ 32\<close> blocks the product is \<open>2 ^ 64\<close>
  bytes, and both decoders seek 0 bytes and read at position 0; the EXT4 decoder even
  finds the superblock of the start of the device. With the logical block size
  \<open>2 ^ 63\<close> and the offset of 1 block the decoders seek backwards by \<open>2 ^ 63\<close>
  bytes, which fails, and read nothing.
\<close>

theorem decoders_seek_to_product_counterexample:
  "unat (0x100000000 :: 64 word) * unat (0x100000000 :: 64 word) = 18446744073709551616
   \<and> ProbeFSEXT4 example ''sda'' 0x100000000 0x100000000 =
       ((Some \<lparr>FSType = FSTypeEXT4, TotalCapacity = 4096000, FreeCapacity = 1638400,
               FSBlockSize = 4096, Mounts = []\<rparr>, None),
        [Call_ProbeFSEXT4, Call_OpenFile ''/dev/sda'', Call_Seek 0,
         Call_Read LittleEndian 0 64, Call_Close])
   \<and> snd (ProbeFSXFS example ''sda'' 0x100000000 0x100000000) =
        [Call_ProbeFSXFS, Call_OpenFile ''/dev/sda'', Call_Seek 0,
         Call_Read BigEndian 0 152, Call_Close]
   \<and> unat (0x8000000000000000 :: 64 word) * unat (1 :: 64 word) = 9223372036854775808
   \<and> ProbeFSEXT4 example ''sda'' 0x8000000000000000 1 =
       ((None, Some (OSError (PathError ''seek'' ''/dev/sda'' EINVAL))),
        [Call_ProbeFSEXT4, Call_OpenFile ''/dev/sda'', Call_Seek (- 9223372036854775808),
         Call_Close])
   \<and> ProbeFSXFS example ''sda'' 0x8000000000000000 1 =
       ((None, Some (OSError (PathError ''seek'' ''/dev/sda'' EINVAL))),
        [Call_ProbeFSXFS, Call_OpenFile ''/dev/sda'', Call_Seek (- 9223372036854775808),
         Call_Close])"
  by (simp add: probe_defs example_defs)

subsection \<open>C8: no mounts at construction\<close>

text \<open>
  Claim C8. Every \<open>FSInfo\<close> that \<open>ProbeFSEXT4\<close>, \<open>ProbeFSXFS\<close> or \<open>ProbeFS\<close>
  returns has an empty list of mounts.
\<close>

theorem mounts_empty_at_construction:
  "(\<forall>info. fst (fst (ProbeFSEXT4 env devName lbs off)) = Some info \<longrightarrow> Mounts info = [])
   \<and> (\<forall>info. fst (fst (ProbeFSXFS env devName lbs off)) = Some info \<longrightarrow> Mounts info = [])
   \<and> (\<forall>info. fst (fst (ProbeFS env devName lbs off)) = Some info \<longrightarrow> Mounts info = [])"
proof (intro conjI allI impI)
  fix info
  assume "fst (fst (ProbeFSEXT4 env devName lbs off)) = Some info"
  then show "Mounts info = []"
    by (cases rule: ProbeFSEXT4_cases [of env devName lbs off]) simp_all
next
  fix info
  assume "fst (fst (ProbeFSXFS env devName lbs off)) = Some info"
  then show "Mounts info = []"
    by (cases rule: ProbeFSXFS_cases [of env devName lbs off]) simp_all
next
  fix info
  assume "fst (fst (ProbeFS env devName lbs off)) = Some info"
  then show "Mounts info = []"
    by (cases rule: ProbeFS_cases [of env devName lbs off]) simp_all
qed

theorem mounts_empty_at_construction_witness:
  "(\<exists>info. fst (fst (ProbeFSEXT4 example ''sda'' 512 0)) = Some info \<and> Mounts info = [])
   \<and> (\<exists>info. fst (fst (ProbeFSXFS example ''sdb'' 512 0)) = Some info \<and> Mounts info = [])
   \<and> (\<exists>info. fst (fst (ProbeFS example ''sdb'' 512 0)) = Some info \<and> Mounts info = [])"
proof (intro conjI)
  have "fst (fst (ProbeFSEXT4 example ''sda'' 512 0)) \<noteq> None"
    by (simp add: example_sda_EXT4)
  then show "\<exists>info. fst (fst (ProbeFSEXT4 example ''sda'' 512 0)) = Some info \<and> Mounts info = []"
    using mounts_empty_at_construction [of example "''sda''" 512 0] by auto
  have "fst (fst (ProbeFSXFS example ''sdb'' 512 0)) \<noteq> None"
    by (simp add: example_sdb_XFS)
  then show "\<exists>info. fst (fst (ProbeFSXFS example ''sdb'' 512 0)) = Some info \<and> Mounts info = []"
    using mounts_empty_at_construction [of example "''sdb''" 512 0] by auto
  have "fst (fst (ProbeFS example ''sdb'' 512 0)) \<noteq> None"
    using ProbeFS_XFS_found [OF example_sdb_EXT4 example_sdb_XFS] by simp
  then show "\<exists>info. fst (fst (ProbeFS example ''sdb'' 512 0)) = Some info \<and> Mounts info = []"
    using mounts_empty_at_construction [of example "''sdb''" 512 0] by auto
qed

subsection \<open>C9: the magic numbers of EXT and XFS\<close>

text \<open>
  Claim C9. In the constant block, \<open>EXT2_SUPER_MAGIC\<close>, \<open>EXT3_SUPER_MAGIC\<close> and
  \<open>EXT4_SUPER_MAGIC\<close> all have the value \<open>0xEF53\<close>, which therefore has these
  three names, and \<open>XFS_SUPER_MAGIC\<close> has the value \<open>0x58465342\<close>, the big-endian
  number of the four ASCII bytes of "XFSB".
\<close>

theorem magic_numbers_EXT_XFS:
  "map_of magic_numbers ''EXT2_SUPER_MAGIC'' = Some 0xEF53
   \<and> map_of magic_numbers ''EXT3_SUPER_MAGIC'' = Some 0xEF53
   \<and> map_of magic_numbers ''EXT4_SUPER_MAGIC'' = Some 0xEF53
   \<and> magic_names 0xEF53 = [''EXT2_SUPER_MAGIC'', ''EXT3_SUPER_MAGIC'', ''EXT4_SUPER_MAGIC'']
   \<and> map_of magic_numbers ''XFS_SUPER_MAGIC'' = Some 0x58465342
   \<and> magic_names 0x58465342 = [''XFS_SUPER_MAGIC'']
   \<and> Uint BigEndian (map (\<lambda>c. of_nat (of_char c)) ''XFSB'') = 0x58465342
   \<and> EXT2_SUPER_MAGIC = 0xEF53 \<and> EXT3_SUPER_MAGIC = 0xEF53 \<and> EXT4_SUPER_MAGIC = 0xEF53
   \<and> XFS_SUPER_MAGIC = 0x58465342"
  by (simp add: magic_number_EXT2 magic_number_EXT3 magic_number_EXT4 magic_number_XFS
      magic_names_EXT magic_names_XFS Uint_def EXT2_SUPER_MAGIC_def EXT3_SUPER_MAGIC_def
      EXT4_SUPER_MAGIC_def XFS_SUPER_MAGIC_def)

subsection \<open>C10: a result or an error, never both and never neither\<close>

text \<open>
  Claim C10. For every input, each of \<open>ProbeFS\<close>, \<open>ProbeFSEXT4\<close> and
  \<open>ProbeFSXFS\<close> returns either a non-nil \<open>FSInfo\<close> with a nil error or a nil
  \<open>FSInfo\<close> with a non-nil error.
\<close>

theorem probe_returns_info_or_error:
  "((fst (fst (ProbeFS env devName lbs off)) = None)
      \<noteq> (snd (fst (ProbeFS env devName lbs off)) = None))
   \<and> ((fst (fst (ProbeFSEXT4 env devName lbs off)) = None)
      \<noteq> (snd (fst (ProbeFSEXT4 env devName lbs off)) = None))
   \<and> ((fst (fst (ProbeFSXFS env devName lbs off)) = None)
      \<noteq> (snd (fst (ProbeFSXFS env devName lbs off)) = None))"
proof (intro conjI)
  show "(fst (fst (ProbeFS env devName lbs off)) = None)
      \<noteq> (snd (fst (ProbeFS env devName lbs off)) = None)"
    by (cases rule: ProbeFS_cases [of env devName lbs off]) simp_all
  show "(fst (fst (ProbeFSEXT4 env devName lbs off)) = None)
      \<noteq> (snd (fst (ProbeFSEXT4 env devName lbs off)) = None)"
    by (cases rule: ProbeFSEXT4_cases [of env devName lbs off]) simp_all
  show "(fst (fst (ProbeFSXFS env devName lbs off)) = None)
      \<noteq> (snd (fst (ProbeFSXFS env devName lbs off)) = None)"
    by (cases rule: ProbeFSXFS_cases [of env devName lbs off]) simp_all
qed

end
